theory Spec2Isabelle
  imports Complex_Main "HOL-Library.Char_ord" "HOL-Library.List_Lexorder" "HOL-Library.Monad_Syntax"
    "HOL-Library.Multiset"
begin

section \<open>Python values used by the tank data reader\<close>

text \<open>
  Strings are lists of 8-bit characters, the code points below 256, compared
  lexicographically character by character as Python compares \<open>str\<close> values.
  \<open>lower\<close> is \<open>str.lower\<close> on these characters: the capital letters are \<open>A\<close> to
  \<open>Z\<close> and the code points 192 to 222 other than 215, and the small letter of each
  is 32 code points further.
\<close>

definition lower_char :: "char \<Rightarrow> char" where
  "lower_char c =
     (let n = (of_char c :: nat)
      in if (65 \<le> n \<and> n \<le> 90) \<or> (192 \<le> n \<and> n \<le> 222 \<and> n \<noteq> 215)
         then char_of (n + 32) else c)"

definition lower :: "string \<Rightarrow> string" where
  "lower s = map lower_char s"

definition endswith :: "string \<Rightarrow> string \<Rightarrow> bool" where
  "endswith s suffix = (length suffix \<le> length s \<and> drop (length s - length suffix) s = suffix)"

text \<open>
  \<open>list.sort(key=..., reverse=True)\<close>: the list is reversed, sorted by a stable
  ascending sort and reversed again, so elements with equal keys keep their order.
\<close>

definition sort_reverse :: "('a \<Rightarrow> 'k::linorder) \<Rightarrow> 'a list \<Rightarrow> 'a list" where
  "sort_reverse key xs = rev (sort_key key (rev xs))"

text \<open>The slice \<open>xs[:n]\<close>; a negative \<open>n\<close> counts from the end of the list.\<close>

definition slice_to :: "int \<Rightarrow> 'a list \<Rightarrow> 'a list" where
  "slice_to n xs = (if 0 \<le> n then take (nat n) xs else take (length xs - nat (- n)) xs)"

section \<open>The SFTP server and the selection of the newest files\<close>

text \<open>
  An entry of \<open>sftp.listdir_attr\<close>: the file's name and its modification time in
  seconds. Every entry carries a modification time.
\<close>

record sftp_attr =
  filename :: string
  st_mtime :: int

definition MAX_FILES :: int where
  "MAX_FILES = 10"

text \<open>
  \<open>get_newest_files\<close> (tank_data_reader.py, lines 97 to 115). The listing is
  \<open>None\<close> when \<open>sftp.listdir_attr\<close> raises; the \<open>except\<close> clause then returns the
  empty list.
\<close>

definition is_xml :: "sftp_attr \<Rightarrow> bool" where
  "is_xml f = endswith (lower (filename f)) ''.xml''"

definition get_newest_files :: "sftp_attr list option \<Rightarrow> int \<Rightarrow> sftp_attr list" where
  "get_newest_files listing max_files =
     (case listing of
        None \<Rightarrow> []
      | Some file_list \<Rightarrow>
          (let xml_files = filter is_xml file_list;
               xml_files = sort_reverse st_mtime xml_files;
               newest_files = slice_to max_files xml_files
           in newest_files))"

section \<open>Dates: \<open>datetime.strptime\<close>, \<open>isoformat\<close>, \<open>strftime\<close>\<close>

text \<open>
  The two formats \<open>parse_xml_file\<close> passes to \<open>datetime.strptime\<close>. The library turns
  a format into a regular expression, matches it at the start of the text and raises
  \<open>ValueError\<close> when nothing matches, when text is left over, or when the fields are
  no date of the calendar. The parsers below follow the library's expression for each
  directive, alternative by alternative. Among the code points below 256 the digits
  that \<open>\d\<close> matches are \<open>0\<close> to \<open>9\<close>, and the white space that \<open>\s\<close> matches is
  9 to 13, 28 to 32, 133 and 160. A field is always followed by a character that is no
  digit, so the first alternative that matches is the one the library's backtracking
  search ends with.
\<close>

datatype date_format = Ymd_HMS | dmY_HMS

record datetime =
  year :: nat
  month :: nat
  day :: nat
  hour :: nat
  minute :: nat
  second :: nat

definition in_range :: "char \<Rightarrow> char \<Rightarrow> char \<Rightarrow> bool" where
  "in_range lo hi c = (lo \<le> c \<and> c \<le> hi)"

definition digit_value :: "char \<Rightarrow> nat" where
  "digit_value c = of_char c - 48"

definition is_space :: "char \<Rightarrow> bool" where
  "is_space c =
     (let n = (of_char c :: nat)
      in (9 \<le> n \<and> n \<le> 13) \<or> (28 \<le> n \<and> n \<le> 32) \<or> n = 133 \<or> n = 160)"

text \<open>Two characters in the given ranges, or one; the value read and the text left.\<close>

fun two :: "char \<Rightarrow> char \<Rightarrow> char \<Rightarrow> char \<Rightarrow> string \<Rightarrow> (nat \<times> string) option" where
  "two lo1 hi1 lo2 hi2 (a # b # rest) =
     (if in_range lo1 hi1 a \<and> in_range lo2 hi2 b
      then Some (10 * digit_value a + digit_value b, rest) else None)"
| "two lo1 hi1 lo2 hi2 _ = None"

fun one :: "char \<Rightarrow> char \<Rightarrow> string \<Rightarrow> (nat \<times> string) option" where
  "one lo hi (a # rest) = (if in_range lo hi a then Some (digit_value a, rest) else None)"
| "one lo hi [] = None"

fun lit :: "char \<Rightarrow> string \<Rightarrow> string option" where
  "lit c (a # rest) = (if a = c then Some rest else None)"
| "lit c [] = None"

text \<open>The alternatives of a directive, tried from left to right.\<close>

fun alternatives :: "(string \<Rightarrow> (nat \<times> string) option) list \<Rightarrow> string \<Rightarrow> (nat \<times> string) option" where
  "alternatives [] s = None"
| "alternatives (p # ps) s = (case p s of Some r \<Rightarrow> Some r | None \<Rightarrow> alternatives ps s)"

text \<open>\<open>%Y\<close> is \<open>\d\d\d\d\<close>.\<close>

fun field_Y :: "string \<Rightarrow> (nat \<times> string) option" where
  "field_Y (a # b # c # d # rest) =
     (if in_range CHR ''0'' CHR ''9'' a \<and> in_range CHR ''0'' CHR ''9'' b \<and>
         in_range CHR ''0'' CHR ''9'' c \<and> in_range CHR ''0'' CHR ''9'' d
      then Some (1000 * digit_value a + 100 * digit_value b + 10 * digit_value c + digit_value d, rest)
      else None)"
| "field_Y _ = None"

text \<open>\<open>%m\<close> is \<open>1[0-2]|0[1-9]|[1-9]\<close>.\<close>

definition field_m :: "string \<Rightarrow> (nat \<times> string) option" where
  "field_m = alternatives
     [two CHR ''1'' CHR ''1'' CHR ''0'' CHR ''2'',
      two CHR ''0'' CHR ''0'' CHR ''1'' CHR ''9'',
      one CHR ''1'' CHR ''9'']"

text \<open>\<open>%d\<close> is \<open>3[0-1]|[1-2]\d|0[1-9]|[1-9]| [1-9]\<close>.\<close>

definition field_d :: "string \<Rightarrow> (nat \<times> string) option" where
  "field_d = alternatives
     [two CHR ''3'' CHR ''3'' CHR ''0'' CHR ''1'',
      two CHR ''1'' CHR ''2'' CHR ''0'' CHR ''9'',
      two CHR ''0'' CHR ''0'' CHR ''1'' CHR ''9'',
      one CHR ''1'' CHR ''9'',
      (\<lambda>s. Option.bind (lit CHR '' '' s) (one CHR ''1'' CHR ''9''))]"

text \<open>\<open>%H\<close> is \<open>2[0-3]|[0-1]\d|\d\<close>.\<close>

definition field_H :: "string \<Rightarrow> (nat \<times> string) option" where
  "field_H = alternatives
     [two CHR ''2'' CHR ''2'' CHR ''0'' CHR ''3'',
      two CHR ''0'' CHR ''1'' CHR ''0'' CHR ''9'',
      one CHR ''0'' CHR ''9'']"

text \<open>\<open>%M\<close> is \<open>[0-5]\d|\d\<close>.\<close>

definition field_M :: "string \<Rightarrow> (nat \<times> string) option" where
  "field_M = alternatives
     [two CHR ''0'' CHR ''5'' CHR ''0'' CHR ''9'',
      one CHR ''0'' CHR ''9'']"

text \<open>\<open>%S\<close> is \<open>6[0-1]|[0-5]\d|\d\<close>.\<close>

definition field_S :: "string \<Rightarrow> (nat \<times> string) option" where
  "field_S = alternatives
     [two CHR ''6'' CHR ''6'' CHR ''0'' CHR ''1'',
      two CHR ''0'' CHR ''5'' CHR ''0'' CHR ''9'',
      one CHR ''0'' CHR ''9'']"

text \<open>White space in a format is \<open>\s+\<close>.\<close>

fun spaces :: "string \<Rightarrow> string option" where
  "spaces (a # rest) = (if is_space a then Some (dropWhile is_space rest) else None)"
| "spaces [] = None"

text \<open>The common tail \<open> %H:%M:%S\<close> of both formats.\<close>

definition time_fields :: "string \<Rightarrow> ((nat \<times> nat \<times> nat) \<times> string) option" where
  "time_fields s = do {
     s \<leftarrow> spaces s;
     (H, s) \<leftarrow> field_H s;
     s \<leftarrow> lit CHR '':'' s;
     (M, s) \<leftarrow> field_M s;
     s \<leftarrow> lit CHR '':'' s;
     (S, s) \<leftarrow> field_S s;
     Some ((H, M, S), s)
   }"

definition match_format :: "date_format \<Rightarrow> string \<Rightarrow> (datetime \<times> string) option" where
  "match_format fmt s =
     (case fmt of
        Ymd_HMS \<Rightarrow> do {
          (Y, s) \<leftarrow> field_Y s;
          s \<leftarrow> lit CHR ''-'' s;
          (m, s) \<leftarrow> field_m s;
          s \<leftarrow> lit CHR ''-'' s;
          (d, s) \<leftarrow> field_d s;
          ((H, M, S), s) \<leftarrow> time_fields s;
          Some (\<lparr>year = Y, month = m, day = d, hour = H, minute = M, second = S\<rparr>, s)
        }
      | dmY_HMS \<Rightarrow> do {
          (d, s) \<leftarrow> field_d s;
          s \<leftarrow> lit CHR ''.'' s;
          (m, s) \<leftarrow> field_m s;
          s \<leftarrow> lit CHR ''.'' s;
          (Y, s) \<leftarrow> field_Y s;
          ((H, M, S), s) \<leftarrow> time_fields s;
          Some (\<lparr>year = Y, month = m, day = d, hour = H, minute = M, second = S\<rparr>, s)
        })"

definition is_leap :: "nat \<Rightarrow> bool" where
  "is_leap y = (y mod 4 = 0 \<and> (y mod 100 \<noteq> 0 \<or> y mod 400 = 0))"

definition days_in_month :: "nat \<Rightarrow> nat \<Rightarrow> nat" where
  "days_in_month y m =
     (if m = 2 then (if is_leap y then 29 else 28)
      else if m = 4 \<or> m = 6 \<or> m = 9 \<or> m = 11 then 30 else 31)"

text \<open>What the constructor of \<open>datetime\<close> accepts.\<close>

definition valid_datetime :: "datetime \<Rightarrow> bool" where
  "valid_datetime dt =
     (1 \<le> year dt \<and> year dt \<le> 9999 \<and> 1 \<le> month dt \<and> month dt \<le> 12 \<and>
      1 \<le> day dt \<and> day dt \<le> days_in_month (year dt) (month dt) \<and>
      hour dt \<le> 23 \<and> minute dt \<le> 59 \<and> second dt \<le> 59)"

text \<open>\<open>datetime.strptime(text, format)\<close>; \<open>None\<close> is \<open>ValueError\<close>.\<close>

definition strptime :: "string \<Rightarrow> date_format \<Rightarrow> datetime option" where
  "strptime s fmt =
     (case match_format fmt s of
        None \<Rightarrow> None
      | Some (dt, rest) \<Rightarrow> if rest = [] \<and> valid_datetime dt then Some dt else None)"

definition digit_char :: "nat \<Rightarrow> char" where
  "digit_char n = char_of (48 + n)"

definition pad2 :: "nat \<Rightarrow> string" where
  "pad2 n = [digit_char (n div 10 mod 10), digit_char (n mod 10)]"

definition pad4 :: "nat \<Rightarrow> string" where
  "pad4 n = [digit_char (n div 1000 mod 10), digit_char (n div 100 mod 10),
             digit_char (n div 10 mod 10), digit_char (n mod 10)]"

text \<open>\<open>date_obj.isoformat()\<close>, for a datetime without microseconds.\<close>

definition isoformat :: "datetime \<Rightarrow> string" where
  "isoformat dt =
     pad4 (year dt) @ ''-'' @ pad2 (month dt) @ ''-'' @ pad2 (day dt) @ ''T'' @
     pad2 (hour dt) @ '':'' @ pad2 (minute dt) @ '':'' @ pad2 (second dt)"

text \<open>
  \<open>date_obj.strftime('%d.%m.%Y %H:%M:%S')\<close>. The C library of the platform writes
  \<open>%Y\<close>; glibc writes the year without leading zeros, so a year below 1000 has
  fewer than four digits.
\<close>

definition year_text :: "nat \<Rightarrow> string" where
  "year_text y =
     (if y < 10 then [digit_char y]
      else if y < 100 then pad2 y
      else if y < 1000 then digit_char (y div 100 mod 10) # pad2 (y mod 100)
      else pad4 y)"

definition strftime :: "datetime \<Rightarrow> string" where
  "strftime dt =
     pad2 (day dt) @ ''.'' @ pad2 (month dt) @ ''.'' @ year_text (year dt) @ '' '' @
     pad2 (hour dt) @ '':'' @ pad2 (minute dt) @ '':'' @ pad2 (second dt)"

text \<open>
  A timestamp of ISO 8601 as \<open>isoformat\<close> writes it: \<open>YYYY-MM-DDTHH:MM:SS\<close>, the
  fields in digits and a date and time that exist.
\<close>

definition two_digits :: "string \<Rightarrow> (nat \<times> string) option" where
  "two_digits = two CHR ''0'' CHR ''9'' CHR ''0'' CHR ''9''"

definition match_iso :: "string \<Rightarrow> datetime option" where
  "match_iso s = do {
     (Y, s) \<leftarrow> field_Y s;
     s \<leftarrow> lit CHR ''-'' s;
     (m, s) \<leftarrow> two_digits s;
     s \<leftarrow> lit CHR ''-'' s;
     (d, s) \<leftarrow> two_digits s;
     s \<leftarrow> lit CHR ''T'' s;
     (H, s) \<leftarrow> two_digits s;
     s \<leftarrow> lit CHR '':'' s;
     (M, s) \<leftarrow> two_digits s;
     s \<leftarrow> lit CHR '':'' s;
     (S, s) \<leftarrow> two_digits s;
     (if s = [] then Some \<lparr>year = Y, month = m, day = d, hour = H, minute = M, second = S\<rparr>
      else None)
   }"

definition is_iso8601 :: "string \<Rightarrow> bool" where
  "is_iso8601 s =
     (case match_iso s of
        None \<Rightarrow> False
      | Some dt \<Rightarrow> valid_datetime dt)"


section \<open>Documents and the extraction of a transaction\<close>

text \<open>
  An element of \<open>xml.etree.ElementTree\<close>: its tag, its text (\<open>None\<close> for an element
  without text, as in \<open><TransactionNumber/>\<close>) and its children. A downloaded file is
  a document that \<open>ET.parse\<close> reads, or one on which it raises.
\<close>

datatype xml = Element (tag: string) (elem_text: "string option") (children: "xml list")

datatype document = NotXml | Xml xml

text \<open>\<open>Element.iter()\<close>: the element itself and its descendants, in document order.\<close>

fun iter :: "xml \<Rightarrow> xml list" where
  "iter (Element t x cs) = Element t x cs # concat (map iter cs)"

text \<open>\<open>e.find('.//name')\<close>: the first descendant with the tag, the element itself apart.\<close>

definition find_descendant :: "string \<Rightarrow> xml \<Rightarrow> xml option" where
  "find_descendant name e = find (\<lambda>x. tag x = name) (concat (map iter (children e)))"

text \<open>\<open>e.find('./name')\<close>: the first child with the tag.\<close>

definition find_child :: "string \<Rightarrow> xml \<Rightarrow> xml option" where
  "find_child name e = find (\<lambda>x. tag x = name) (children e)"

text \<open>
  The values \<open>parse_xml_file\<close> stores: \<open>None\<close>, a string or a float. A float stands
  for the real number it denotes; rounding, infinities and NaN are left out. A
  transaction is a \<open>dict\<close>, kept as the list of its items in insertion order.
\<close>

datatype pyval = PyNone | Str string | Float real

type_synonym transaction_data = "(string \<times> pyval) list"

definition text_value :: "xml \<Rightarrow> pyval" where
  "text_value e = (case elem_text e of None \<Rightarrow> PyNone | Some s \<Rightarrow> Str s)"

text \<open>Lines 150 to 155.\<close>

definition transaction_number_items :: "xml \<Rightarrow> transaction_data" where
  "transaction_number_items transaction =
     (case find_child ''TransactionNumber'' transaction of
        Some transaction_number \<Rightarrow> [(''TransactionNumber'', text_value transaction_number)]
      | None \<Rightarrow> [(''TransactionNumber'', Str ''N/A'')])"

text \<open>
  Lines 157 to 177. \<open>strptime\<close> raises \<open>TypeError\<close> on a text that is \<open>None\<close>; neither
  \<open>except ValueError\<close> catches it, so the whole extraction fails (the result \<open>None\<close>
  here).
\<close>

definition start_date_items :: "xml \<Rightarrow> transaction_data option" where
  "start_date_items transaction =
     (case find_child ''TransactionStartDate'' transaction of
        Some transaction_start_date \<Rightarrow>
          (case elem_text transaction_start_date of
             None \<Rightarrow> None
           | Some t \<Rightarrow>
               (case strptime t Ymd_HMS of
                  Some date_obj \<Rightarrow>
                    Some [(''TransactionStartDate'', Str (strftime date_obj)),
                          (''RawDate'', Str (isoformat date_obj))]
                | None \<Rightarrow>
                    (case strptime t dmY_HMS of
                       Some date_obj \<Rightarrow>
                         Some [(''TransactionStartDate'', Str t),
                               (''RawDate'', Str (isoformat date_obj))]
                     | None \<Rightarrow>
                         Some [(''TransactionStartDate'', Str t), (''RawDate'', Str t)])))
      | None \<Rightarrow>
          Some [(''TransactionStartDate'', Str ''N/A''),
                (''RawDate'', Str ''1970-01-01T00:00:00'')])"

text \<open>Lines 179 to 184.\<close>

definition dispenser_number_items :: "xml \<Rightarrow> transaction_data" where
  "dispenser_number_items transaction =
     (case find_descendant ''DispenserNumber'' transaction of
        Some dispenser_number \<Rightarrow> [(''DispenserNumber'', text_value dispenser_number)]
      | None \<Rightarrow> [(''DispenserNumber'', Str ''N/A'')])"

text \<open>Lines 186 to 201.\<close>

definition article_number_items :: "xml \<Rightarrow> transaction_data" where
  "article_number_items transaction =
     (case find_descendant ''ArticleNumber'' transaction of
        Some article_number \<Rightarrow>
          (if elem_text article_number = Some ''1''
           then [(''ArticleNumber'', Str ''AVGAS''), (''RawArticleNumber'', Str ''1'')]
           else if elem_text article_number = Some ''2''
           then [(''ArticleNumber'', Str ''MOGAS''), (''RawArticleNumber'', Str ''2'')]
           else [(''ArticleNumber'', text_value article_number),
                 (''RawArticleNumber'', text_value article_number)])
      | None \<Rightarrow> [(''ArticleNumber'', Str ''N/A''), (''RawArticleNumber'', Str ''N/A'')])"

text \<open>
  Lines 203 to 213. \<open>to_float\<close> is Python's \<open>float\<close> on a string, \<open>None\<close> where it
  raises \<open>ValueError\<close>. On a text that is \<open>None\<close> it raises \<open>TypeError\<close>, which fails
  the whole extraction.
\<close>

definition quantity_items :: "(string \<Rightarrow> real option) \<Rightarrow> xml \<Rightarrow> transaction_data option" where
  "quantity_items to_float transaction =
     (case find_child ''TransactionQuantity'' transaction of
        Some transaction_quantity \<Rightarrow>
          (case elem_text transaction_quantity of
             None \<Rightarrow> None
           | Some t \<Rightarrow>
               Some [(''TransactionQuantity'', Str t),
                     (''RawQuantity'', Float (case to_float t of Some q \<Rightarrow> q | None \<Rightarrow> 0))])
      | None \<Rightarrow> Some [(''TransactionQuantity'', Str ''N/A''), (''RawQuantity'', Float 0)])"

text \<open>Lines 215 to 220.\<close>

definition kennzeichen_items :: "xml \<Rightarrow> transaction_data" where
  "kennzeichen_items transaction =
     (case find_descendant ''AdditionalEntry'' transaction of
        Some additional_entry \<Rightarrow> [(''Kennzeichen'', text_value additional_entry)]
      | None \<Rightarrow> [(''Kennzeichen'', Str ''N/A'')])"

text \<open>
  \<open>parse_xml_file\<close> (lines 135 to 226). The result is \<open>None\<close> when the function
  returns \<open>None\<close>: no \<open>Transaction\<close> element, or an exception caught at line 224.
\<close>

definition parse_xml_file :: "(string \<Rightarrow> real option) \<Rightarrow> document \<Rightarrow> transaction_data option" where
  "parse_xml_file to_float file =
     (case file of
        NotXml \<Rightarrow> None
      | Xml tree_root \<Rightarrow>
          (case find_descendant ''Transaction'' tree_root of
             None \<Rightarrow> None
           | Some transaction \<Rightarrow>
               (case start_date_items transaction of
                  None \<Rightarrow> None
                | Some date_items \<Rightarrow>
                    (case quantity_items to_float transaction of
                       None \<Rightarrow> None
                     | Some amount_items \<Rightarrow>
                         Some (transaction_number_items transaction @ date_items @
                               dispenser_number_items transaction @
                               article_number_items transaction @ amount_items @
                               kennzeichen_items transaction)))))"

text \<open>\<open>d.get(key, default)\<close> and \<open>key in d\<close> on the items of a dict.\<close>

definition dict_get :: "transaction_data \<Rightarrow> string \<Rightarrow> pyval \<Rightarrow> pyval" where
  "dict_get d k dflt = (case map_of d k of Some v \<Rightarrow> v | None \<Rightarrow> dflt)"

definition dict_has :: "transaction_data \<Rightarrow> string \<Rightarrow> bool" where
  "dict_has d k = (map_of d k \<noteq> None)"

section \<open>Fetching and processing\<close>

text \<open>
  The SFTP server as the program sees it: whether \<open>connect_to_sftp\<close> gets a session,
  what \<open>listdir_attr\<close> returns (\<open>None\<close> when it raises) and, for each file name, the
  document \<open>sftp.get\<close> downloads (\<open>None\<close> when it raises).
\<close>

record sftp_server =
  connect_ok :: bool
  listdir_attr :: "sftp_attr list option"
  sftp_get :: "string \<Rightarrow> document option"

datatype sftp_op = Connect | Listdir | Get string | Close

definition DATA_DIR :: string where
  "DATA_DIR = ''/data/tank_data''"

text \<open>
  \<open>download_files\<close> (lines 117 to 133): the local paths of the files whose download
  did not raise, each with the document now stored under it.
\<close>

definition download_files :: "sftp_server \<Rightarrow> sftp_attr list \<Rightarrow> (string \<times> document) list" where
  "download_files srv files =
     List.map_filter
       (\<lambda>file_attr.
          case sftp_get srv (filename file_attr) of
            Some doc \<Rightarrow> Some (DATA_DIR @ ''/'' @ filename file_attr, doc)
          | None \<Rightarrow> None)
       files"

text \<open>Lines 531 to 535: the records of the files that parse, in the order of the files.\<close>

definition parse_files :: "(string \<Rightarrow> real option) \<Rightarrow> (string \<times> document) list \<Rightarrow> transaction_data list" where
  "parse_files to_float downloaded_files =
     List.map_filter
       (\<lambda>(file_path, doc).
          case parse_xml_file to_float doc of
            Some data \<Rightarrow> if data \<noteq> [] then Some data else None
          | None \<Rightarrow> None)
       downloaded_files"

text \<open>
  Lines 537 to 541. The keys are compared as strings. A key that is no string makes
  the comparison raise \<open>TypeError\<close>, which line 544 catches (\<open>None\<close> here);
  \<open>parse_xml_file\<close> stores no such key.
\<close>

definition sort_key_of :: "transaction_data \<Rightarrow> pyval" where
  "sort_key_of x = dict_get x ''RawDate'' (Str ''1970-01-01T00:00:00'')"

fun is_str :: "pyval \<Rightarrow> bool" where
  "is_str (Str s) = True"
| "is_str _ = False"

fun str_of :: "pyval \<Rightarrow> string" where
  "str_of (Str s) = s"
| "str_of _ = []"

definition sort_key_string :: "transaction_data \<Rightarrow> string" where
  "sort_key_string x = str_of (sort_key_of x)"

definition sort_by_raw_date :: "transaction_data list \<Rightarrow> transaction_data list option" where
  "sort_by_raw_date data_list =
     (if list_all (\<lambda>x. is_str (sort_key_of x)) data_list
      then Some (sort_reverse sort_key_string data_list)
      else None)"

text \<open>
  \<open>fetch_and_process_data\<close> (lines 508 to 553): the calls made on the server, in
  order, and the value returned (\<open>None\<close> is Python's \<open>None\<close>).
\<close>

record fetch_result =
  ops :: "sftp_op list"
  returned :: "transaction_data list option"

definition fetch_and_process_data :: "(string \<Rightarrow> real option) \<Rightarrow> sftp_server \<Rightarrow> fetch_result" where
  "fetch_and_process_data to_float srv =
     (if \<not> connect_ok srv then \<lparr>ops = [Connect], returned = None\<rparr>
      else
        (let newest_files = get_newest_files (listdir_attr srv) MAX_FILES in
         if newest_files = [] then \<lparr>ops = [Connect, Listdir, Close], returned = None\<rparr>
         else
           (let downloaded_files = download_files srv newest_files;
                data_list = parse_files to_float downloaded_files
            in \<lparr>ops = [Connect, Listdir] @ map (\<lambda>f. Get (filename f)) newest_files @ [Close],
                returned = sort_by_raw_date data_list\<rparr>)))"

section \<open>The report and the MQTT publication\<close>

text \<open>
  \<open>generate_html\<close> (lines 228 to 426), without the markup: the time written into the
  page and one row of six values for each record that is not empty.
\<close>

record report =
  generated_at :: real
  table_rows :: "pyval list list"

definition columns :: "string list" where
  "columns = [''TransactionNumber'', ''TransactionStartDate'', ''DispenserNumber'',
              ''ArticleNumber'', ''TransactionQuantity'', ''Kennzeichen'']"

definition generate_html :: "transaction_data list \<Rightarrow> real \<Rightarrow> report" where
  "generate_html data_list current_time =
     \<lparr>generated_at = current_time,
      table_rows = map (\<lambda>data. map (\<lambda>k. dict_get data k (Str ''N/A'')) columns)
                       (filter (\<lambda>data. data \<noteq> []) data_list)\<rparr>"

text \<open>
  The topics under \<open>MQTT_TOPIC_PREFIX\<close> and what is published on them, before
  \<open>json.dumps\<close> and \<open>str\<close> turn it into text.
\<close>

datatype topic = Last_update | Transactions | Transaction pyval | Total_quantity | Article_counts

datatype payload =
    Timestamp real
  | Json_list "transaction_data list"
  | Json_dict transaction_data
  | Number real
  | Json_counts "(pyval \<times> nat) list"

text \<open>
  A step of the \<open>try\<close> block of \<open>publish_to_mqtt\<close>: a call of \<open>client.publish\<close>, or an
  exception raised before the call is reached.
\<close>

datatype action = Publish topic payload | Fail

text \<open>
  The block runs its steps in order and stops at the first exception. A client is the
  set of calls, each a topic with a payload, on which its \<open>publish\<close> raises. The
  result lists the calls of \<open>client.publish\<close> that were made.
\<close>

fun run_actions :: "(topic \<times> payload \<Rightarrow> bool) \<Rightarrow> action list \<Rightarrow> (topic \<times> payload) list" where
  "run_actions raises [] = []"
| "run_actions raises (Fail # rest) = []"
| "run_actions raises (Publish t p # rest) =
     (if raises (t, p) then [(t, p)] else (t, p) # run_actions raises rest)"

text \<open>Lines 480 to 486.\<close>

definition transaction_actions :: "transaction_data list \<Rightarrow> action list" where
  "transaction_actions data_list =
     map (\<lambda>data. Publish (Transaction (dict_get data ''TransactionNumber'' PyNone)) (Json_dict data))
         (filter (\<lambda>data. data \<noteq> [] \<and> dict_has data ''TransactionNumber'') data_list)"

text \<open>Lines 488 to 490; adding a value that is no number raises \<open>TypeError\<close>.\<close>

fun is_float :: "pyval \<Rightarrow> bool" where
  "is_float (Float q) = True"
| "is_float _ = False"

fun float_of :: "pyval \<Rightarrow> real" where
  "float_of (Float q) = q"
| "float_of _ = 0"

definition total_quantity_action :: "transaction_data list \<Rightarrow> action" where
  "total_quantity_action data_list =
     (let quantities = map (\<lambda>data. dict_get data ''RawQuantity'' (Float 0))
                           (filter (\<lambda>data. data \<noteq> []) data_list)
      in if list_all is_float quantities
         then Publish Total_quantity (Number (sum_list (map float_of quantities)))
         else Fail)"

text \<open>Lines 492 to 502.\<close>

fun increment :: "pyval \<Rightarrow> (pyval \<times> nat) list \<Rightarrow> (pyval \<times> nat) list" where
  "increment article [] = [(article, 1)]"
| "increment article ((k, n) # rest) =
     (if k = article then (k, n + 1) # rest else (k, n) # increment article rest)"

definition article_counts :: "transaction_data list \<Rightarrow> (pyval \<times> nat) list" where
  "article_counts data_list =
     foldl (\<lambda>counts data. increment (dict_get data ''RawArticleNumber'' PyNone) counts) []
           (filter (\<lambda>data. data \<noteq> [] \<and> dict_has data ''RawArticleNumber'') data_list)"

definition publish_actions :: "real \<Rightarrow> transaction_data list \<Rightarrow> action list" where
  "publish_actions timestamp data_list =
     [Publish Last_update (Timestamp timestamp),
      Publish Transactions (Json_list data_list)] @
     transaction_actions data_list @
     [total_quantity_action data_list,
      Publish Article_counts (Json_counts (article_counts data_list))]"

text \<open>
  \<open>publish_to_mqtt\<close> (lines 463 to 506). The client is \<open>None\<close> when \<open>connect_mqtt\<close>
  returned \<open>None\<close>.
\<close>

definition publish_to_mqtt :: "(topic \<times> payload \<Rightarrow> bool) option \<Rightarrow> real \<Rightarrow> transaction_data list \<Rightarrow> (topic \<times> payload) list" where
  "publish_to_mqtt client timestamp data_list =
     (case client of
        None \<Rightarrow> []
      | Some raises \<Rightarrow> run_actions raises (publish_actions timestamp data_list))"

section \<open>The refresh: \<open>main\<close> and \<open>update_data\<close>\<close>

text \<open>
  What a refresh meets outside the program: the SFTP server, the MQTT client that
  \<open>connect_mqtt\<close> returns, whether \<open>OUTPUT_FILE\<close> can be opened for writing, and the
  time.
\<close>

record environment =
  sftp :: sftp_server
  mqtt_client :: "(topic \<times> payload \<Rightarrow> bool) option"
  write_ok :: bool
  clock :: real

text \<open>
  What the program changes: the page in \<open>OUTPUT_FILE\<close>, the global
  \<open>last_update_time\<close>, and three histories kept for the proofs: the values assigned
  to \<open>last_update_time\<close> (\<open>time_writes\<close>, the latest last), the calls made on the
  SFTP server, and the calls of \<open>client.publish\<close> made by \<open>publish_to_mqtt\<close>.
\<close>

datatype page = Default_page | Generated report

record state =
  output_file :: page
  last_update_time :: real
  time_writes :: "real list"
  sftp_log :: "sftp_op list"
  published :: "(topic \<times> payload) list"

datatype completion = Returns | Raises

text \<open>
  \<open>main\<close> (lines 555 to 583). It raises when \<open>OUTPUT_FILE\<close> cannot be opened for
  writing; every failure of the transport ends in the value \<open>None\<close> of
  \<open>fetch_and_process_data\<close> and the warning of line 581.
\<close>

definition main :: "(string \<Rightarrow> real option) \<Rightarrow> environment \<Rightarrow> state \<Rightarrow> completion \<times> state" where
  "main to_float env s =
     (let r = fetch_and_process_data to_float (sftp env);
          s = s\<lparr>sftp_log := sftp_log s @ ops r\<rparr>
      in case returned r of
           None \<Rightarrow> (Returns, s)
         | Some data_list \<Rightarrow>
             if data_list = [] then (Returns, s)
             else if \<not> write_ok env then (Raises, s)
             else
               (let s = s\<lparr>output_file := Generated (generate_html data_list (clock env))\<rparr>;
                    s = s\<lparr>published := published s @
                                         publish_to_mqtt (mqtt_client env) (clock env) data_list\<rparr>
                in (Returns, s)))"

text \<open>
  \<open>update_data\<close> (web_server.py, lines 81 to 96), the part inside \<open>with data_lock\<close>.
  The second message stands for \<open>Error updating data:\<close> followed by the text of the
  exception.
\<close>

definition update_data :: "(string \<Rightarrow> real option) \<Rightarrow> environment \<Rightarrow> state \<Rightarrow> (bool \<times> string) \<times> state" where
  "update_data to_float env s =
     (case main to_float env s of
        (Returns, s') \<Rightarrow>
          ((True, ''Data updated successfully''),
           s'\<lparr>last_update_time := clock env, time_writes := time_writes s' @ [clock env]\<rparr>)
      | (Raises, s') \<Rightarrow> ((False, ''Error updating data''), s'))"

text \<open>\<open>api_tankdata\<close> (web_server.py, lines 143 to 168).\<close>

datatype response =
    Tankdata_success "transaction_data list" nat
  | Tankdata_failure string
  | Reload_response bool string

definition api_tankdata :: "(string \<Rightarrow> real option) \<Rightarrow> environment \<Rightarrow> state \<Rightarrow> response \<times> state" where
  "api_tankdata to_float env s =
     (let r = fetch_and_process_data to_float (sftp env);
          s = s\<lparr>sftp_log := sftp_log s @ ops r\<rparr>
      in case returned r of
           None \<Rightarrow> (Tankdata_failure ''No data available'', s)
         | Some data_list \<Rightarrow>
             if data_list = [] then (Tankdata_failure ''No data available'', s)
             else (Tankdata_success data_list (length data_list), s))"

section \<open>Requests served at the same time\<close>

text \<open>
  The web server serves each request on a thread of its own; the scheduled update is
  one more thread that calls \<open>update_data\<close>. A thread that calls \<open>update_data\<close> waits
  for \<open>data_lock\<close>, runs the refresh while it holds the lock and releases it on return.
  A thread that serves \<open>/api/tankdata\<close> takes no lock. A schedule names, step by step,
  the thread that moves and the environment it meets; a thread that waits for a lock
  that is held does not move. A call of \<open>update_data\<close> or of \<open>api_tankdata\<close> is one
  step: the files that two fetches running at the same moment would both write under
  \<open>DATA_DIR\<close> are not part of this model.
\<close>

datatype request = Reload | Tankdata

datatype thread = Waiting request | Running | Done response

record server =
  app :: state
  data_lock :: "nat option"
  threads :: "thread list"

definition step :: "(string \<Rightarrow> real option) \<Rightarrow> server \<Rightarrow> nat \<times> environment \<Rightarrow> server" where
  "step to_float sv move =
     (case move of (i, env) \<Rightarrow>
        if \<not> i < length (threads sv) then sv
        else
          (case threads sv ! i of
             Waiting Reload \<Rightarrow>
               (if data_lock sv = None
                then sv\<lparr>data_lock := Some i, threads := (threads sv)[i := Running]\<rparr>
                else sv)
           | Running \<Rightarrow>
               (case update_data to_float env (app sv) of
                  ((success, message), s') \<Rightarrow>
                    sv\<lparr>app := s', data_lock := None,
                       threads := (threads sv)[i := Done (Reload_response success message)]\<rparr>)
           | Waiting Tankdata \<Rightarrow>
               (case api_tankdata to_float env (app sv) of
                  (resp, s') \<Rightarrow> sv\<lparr>app := s', threads := (threads sv)[i := Done resp]\<rparr>)
           | Done resp \<Rightarrow> sv))"

definition run :: "(string \<Rightarrow> real option) \<Rightarrow> server \<Rightarrow> (nat \<times> environment) list \<Rightarrow> server" where
  "run to_float sv schedule = foldl (step to_float) sv schedule"

text \<open>The server with the given requests pending and nobody holding the lock.\<close>

definition start :: "state \<Rightarrow> request list \<Rightarrow> server" where
  "start s requests = \<lparr>app = s, data_lock = None, threads = map Waiting requests\<rparr>"

section \<open>Example inputs\<close>

text \<open>A listing of twelve XML files with twelve different modification times.\<close>

definition example_listing :: "sftp_attr list" where
  "example_listing =
     [\<lparr>filename = ''t03.xml'', st_mtime = 1030\<rparr>, \<lparr>filename = ''t11.XML'', st_mtime = 1110\<rparr>,
      \<lparr>filename = ''t01.xml'', st_mtime = 1010\<rparr>, \<lparr>filename = ''t07.xml'', st_mtime = 1070\<rparr>,
      \<lparr>filename = ''t12.xml'', st_mtime = 1120\<rparr>, \<lparr>filename = ''t02.Xml'', st_mtime = 1020\<rparr>,
      \<lparr>filename = ''t09.xml'', st_mtime = 1090\<rparr>, \<lparr>filename = ''t05.xml'', st_mtime = 1050\<rparr>,
      \<lparr>filename = ''t04.xml'', st_mtime = 1040\<rparr>, \<lparr>filename = ''t10.xml'', st_mtime = 1100\<rparr>,
      \<lparr>filename = ''t06.xml'', st_mtime = 1060\<rparr>, \<lparr>filename = ''t08.xml'', st_mtime = 1080\<rparr>]"

text \<open>
  A conversion in the place of Python's \<open>float\<close> for the examples: it reads
  \<open>12.5\<close> and \<open>40\<close> and raises \<open>ValueError\<close> on every other text.
\<close>

definition example_float :: "string \<Rightarrow> real option" where
  "example_float s = (if s = ''12.5'' then Some 12.5 else if s = ''40'' then Some 40 else None)"

text \<open>
  Three documents. The first two carry the same start date, written in the two known
  formats; the third is a day older.
\<close>

definition example_doc_a :: xml where
  "example_doc_a =
     Element ''Envelope'' None [Element ''Body'' None [Element ''Transaction'' None
       [Element ''TransactionNumber'' (Some ''4711'') [],
        Element ''TransactionStartDate'' (Some ''2024-03-05 10:11:12'') [],
        Element ''DispenserData'' None [Element ''DispenserNumber'' (Some ''2'') []],
        Element ''ArticleData'' None [Element ''ArticleNumber'' (Some ''1'') []],
        Element ''TransactionQuantity'' (Some ''12.5'') [],
        Element ''MediaData'' None [Element ''AdditionalEntry'' (Some ''D-EABC'') []]]]]"

definition example_doc_b :: xml where
  "example_doc_b =
     Element ''Envelope'' None [Element ''Transaction'' None
       [Element ''TransactionNumber'' (Some ''4712'') [],
        Element ''TransactionStartDate'' (Some ''05.03.2024 10:11:12'') [],
        Element ''ArticleData'' None [Element ''ArticleNumber'' (Some ''7'') []],
        Element ''TransactionQuantity'' (Some ''abc'') []]]"

definition example_doc_c :: xml where
  "example_doc_c =
     Element ''Envelope'' None [Element ''Transaction'' None
       [Element ''TransactionNumber'' (Some ''4710'') [],
        Element ''TransactionStartDate'' (Some ''2024-03-04 23:59:59'') [],
        Element ''ArticleData'' None [Element ''ArticleNumber'' (Some ''2'') []],
        Element ''TransactionQuantity'' (Some ''40'') []]]"

text \<open>
  A server with four files, one of them no XML file. The oldest XML file holds the
  first document.
\<close>

definition example_server :: sftp_server where
  "example_server =
     \<lparr>connect_ok = True,
      listdir_attr = Some [\<lparr>filename = ''a.xml'', st_mtime = 100\<rparr>,
                           \<lparr>filename = ''notes.txt'', st_mtime = 400\<rparr>,
                           \<lparr>filename = ''b.xml'', st_mtime = 200\<rparr>,
                           \<lparr>filename = ''c.xml'', st_mtime = 300\<rparr>],
      sftp_get = (\<lambda>name. if name = ''a.xml'' then Some (Xml example_doc_a)
                           else if name = ''b.xml'' then Some (Xml example_doc_b)
                           else if name = ''c.xml'' then Some (Xml example_doc_c)
                           else None)\<rparr>"

text \<open>
  A document whose \<open>TransactionNumber\<close> element has no text, and one whose start date
  is written in neither of the two known formats.
\<close>

definition example_doc_no_text :: xml where
  "example_doc_no_text =
     Element ''Envelope'' None [Element ''Transaction'' None
       [Element ''TransactionNumber'' None [],
        Element ''TransactionStartDate'' (Some ''2024-03-05 10:11:12'') []]]"

definition example_doc_slashes :: xml where
  "example_doc_slashes =
     Element ''Envelope'' None [Element ''Transaction'' None
       [Element ''TransactionNumber'' (Some ''4713'') [],
        Element ''TransactionStartDate'' (Some ''05/03/2024 10:11'') []]]"

text \<open>
  A document whose start date element has no text, and one whose start date, the last
  day of 2020, is written with slashes.
\<close>

definition example_doc_empty_date :: xml where
  "example_doc_empty_date =
     Element ''Envelope'' None [Element ''Transaction'' None
       [Element ''TransactionNumber'' (Some ''4714'') [],
        Element ''TransactionStartDate'' None []]]"



text \<open>
  Three servers: one that refuses the connection, one whose listing raises, and one
  whose directory holds no XML file.
\<close>

definition unreachable_server :: sftp_server where
  "unreachable_server = \<lparr>connect_ok = False, listdir_attr = None, sftp_get = (\<lambda>name. None)\<rparr>"

definition unlistable_server :: sftp_server where
  "unlistable_server = \<lparr>connect_ok = True, listdir_attr = None, sftp_get = (\<lambda>name. None)\<rparr>"

definition empty_server :: sftp_server where
  "empty_server =
     \<lparr>connect_ok = True,
      listdir_attr = Some [\<lparr>filename = ''notes.txt'', st_mtime = 400\<rparr>],
      sftp_get = (\<lambda>name. None)\<rparr>"

text \<open>The calls of \<open>client.publish\<close> that a list of steps holds.\<close>

fun calls :: "action list \<Rightarrow> (topic \<times> payload) list" where
  "calls [] = []"
| "calls (Fail # rest) = calls rest"
| "calls (Publish t p # rest) = (t, p) # calls rest"

text \<open>
  A client whose \<open>publish\<close> raises \<open>ValueError\<close> on a topic with a wildcard character,
  as the paho client does, and two records, the first with a \<open>+\<close> in its number.
\<close>

definition wildcard_client :: "topic \<times> payload \<Rightarrow> bool" where
  "wildcard_client call =
     (case fst call of
        Transaction (Str s) \<Rightarrow> CHR ''+'' \<in> set s \<or> CHR ''#'' \<in> set s
      | _ \<Rightarrow> False)"

definition example_record_plus :: transaction_data where
  "example_record_plus =
     [(''TransactionNumber'', Str ''47+1''), (''TransactionStartDate'', Str ''05.03.2024 10:11:12''),
      (''RawDate'', Str ''2024-03-05T10:11:12''), (''DispenserNumber'', Str ''2''),
      (''ArticleNumber'', Str ''AVGAS''), (''RawArticleNumber'', Str ''1''),
      (''TransactionQuantity'', Str ''12.5''), (''RawQuantity'', Float 12.5),
      (''Kennzeichen'', Str ''D-EABC'')]"

definition example_record_plain :: transaction_data where
  "example_record_plain =
     [(''TransactionNumber'', Str ''4710''), (''TransactionStartDate'', Str ''04.03.2024 23:59:59''),
      (''RawDate'', Str ''2024-03-04T23:59:59''), (''DispenserNumber'', Str ''N/A''),
      (''ArticleNumber'', Str ''MOGAS''), (''RawArticleNumber'', Str ''2''),
      (''TransactionQuantity'', Str ''40''), (''RawQuantity'', Float 40),
      (''Kennzeichen'', Str ''N/A'')]"

section \<open>Predicates and examples for the refresh\<close>

text \<open>A reload that has returned success.\<close>

fun reload_succeeded :: "thread \<Rightarrow> bool" where
  "reload_succeeded (Done (Reload_response success message)) = success"
| "reload_succeeded _ = False"

text \<open>
  A state with a report generated at time 500, and three environments: the server
  cannot be reached at time 1000; the example server answers at time 1000 and at
  time 2000.
\<close>

definition example_state :: state where
  "example_state =
     \<lparr>output_file = Generated \<lparr>generated_at = 500, table_rows = []\<rparr>,
      last_update_time = 500, time_writes = [500], sftp_log = [], published = []\<rparr>"

definition unreachable_env :: environment where
  "unreachable_env =
     \<lparr>sftp = unreachable_server, mqtt_client = None, write_ok = True, clock = 1000\<rparr>"

definition example_env_1 :: environment where
  "example_env_1 = \<lparr>sftp = example_server, mqtt_client = None, write_ok = True, clock = 1000\<rparr>"

definition example_env_2 :: environment where
  "example_env_2 = \<lparr>sftp = example_server, mqtt_client = None, write_ok = True, clock = 2000\<rparr>"

text \<open>
  Every reply to a reload is one of the two messages of \<open>update_data\<close>; and a thread
  is inside the refresh exactly when it holds the lock.
\<close>

fun reload_reply :: "thread \<Rightarrow> bool" where
  "reload_reply (Done (Reload_response success message)) =
     (message = (if success then ''Data updated successfully'' else ''Error updating data''))"
| "reload_reply _ = True"

definition lock_invariant :: "server \<Rightarrow> bool" where
  "lock_invariant sv =
     (\<forall>j < length (threads sv). threads sv ! j = Running \<longleftrightarrow> data_lock sv = Some j)"

definition refresh_invariant :: "nat \<Rightarrow> server \<Rightarrow> bool" where
  "refresh_invariant n sv =
     (lock_invariant sv \<and> list_all reload_reply (threads sv) \<and>
      length (time_writes (app sv)) = n + length (filter reload_succeeded (threads sv)))"

text \<open>A server on which thread 0 holds the lock while thread 1 asks for the records.\<close>

definition example_held :: server where
  "example_held =
     \<lparr>app = example_state, data_lock = Some 0, threads = [Running, Waiting Tankdata]\<rparr>"

section \<open>Properties of the selection\<close>

lemma of_char_lower_char:
  "(of_char (lower_char c) :: nat) =
     (if (65 \<le> (of_char c :: nat) \<and> (of_char c :: nat) \<le> 90) \<or>
         (192 \<le> (of_char c :: nat) \<and> (of_char c :: nat) \<le> 222 \<and> (of_char c :: nat) \<noteq> 215)
      then of_char c + 32 else of_char c)"
  by (simp add: lower_char_def Let_def)

lemma char_eq_iff_nat: "(c = d) = ((of_char c :: nat) = of_char d)"
  by (metis of_char_eq_iff) 

lemma lower_char_x: "lower_char c = CHR ''x'' \<longleftrightarrow> c = CHR ''x'' \<or> c = CHR ''X''"
  by (simp add: char_eq_iff_nat of_char_lower_char) arith

lemma lower_char_m: "lower_char c = CHR ''m'' \<longleftrightarrow> c = CHR ''m'' \<or> c = CHR ''M''"
  by (simp add: char_eq_iff_nat of_char_lower_char) arith

lemma lower_char_l: "lower_char c = CHR ''l'' \<longleftrightarrow> c = CHR ''l'' \<or> c = CHR ''L''"
  by (simp add: char_eq_iff_nat of_char_lower_char) arith

lemma lower_char_dot: "lower_char c = CHR ''.'' \<longleftrightarrow> c = CHR ''.''"
  by (simp add: char_eq_iff_nat of_char_lower_char)

lemma endswith_iff: "endswith s suffix \<longleftrightarrow> (\<exists>stem. s = stem @ suffix)"
proof
  assume "endswith s suffix"
  then have "s = take (length s - length suffix) s @ suffix"
    by (metis append_take_drop_id endswith_def)
  then show "\<exists>stem. s = stem @ suffix" ..
next
  assume "\<exists>stem. s = stem @ suffix"
  then show "endswith s suffix"
    by (auto simp: endswith_def)
qed

lemma is_xml_iff:
  "is_xml f \<longleftrightarrow>
     (\<exists>stem x m l. filename f = stem @ [CHR ''.'', x, m, l] \<and>
        (x = CHR ''x'' \<or> x = CHR ''X'') \<and> (m = CHR ''m'' \<or> m = CHR ''M'') \<and>
        (l = CHR ''l'' \<or> l = CHR ''L''))"
proof
  assume "is_xml f"
  then obtain stem where "map lower_char (filename f) = stem @ ''.xml''"
    by (auto simp: is_xml_def lower_def endswith_iff)
  then obtain us vs where f: "filename f = us @ vs" and vs: "map lower_char vs = ''.xml''"
    by (auto simp: map_eq_append_conv)
  from vs obtain a x m l where "vs = [a, x, m, l]" "lower_char a = CHR ''.''"
    "lower_char x = CHR ''x''" "lower_char m = CHR ''m''" "lower_char l = CHR ''l''"
    by (auto simp: map_eq_Cons_conv)
  with f show "\<exists>stem x m l. filename f = stem @ [CHR ''.'', x, m, l] \<and>
        (x = CHR ''x'' \<or> x = CHR ''X'') \<and> (m = CHR ''m'' \<or> m = CHR ''M'') \<and>
        (l = CHR ''l'' \<or> l = CHR ''L'')"
    by (auto simp: lower_char_x lower_char_m lower_char_l lower_char_dot)
next
  assume "\<exists>stem x m l. filename f = stem @ [CHR ''.'', x, m, l] \<and>
        (x = CHR ''x'' \<or> x = CHR ''X'') \<and> (m = CHR ''m'' \<or> m = CHR ''M'') \<and>
        (l = CHR ''l'' \<or> l = CHR ''L'')"
  then obtain stem x m l where "filename f = stem @ [CHR ''.'', x, m, l]"
    "lower_char x = CHR ''x''" "lower_char m = CHR ''m''" "lower_char l = CHR ''l''"
    by (auto simp: lower_char_x lower_char_m lower_char_l)
  then have "map lower_char (filename f) = map lower_char stem @ ''.xml''"
    by (simp add: lower_char_dot)
  then show "is_xml f"
    unfolding is_xml_def lower_def endswith_iff by blast
qed


lemma mset_sort_reverse: "mset (sort_reverse key xs) = mset xs"
  by (simp add: sort_reverse_def)

lemma set_sort_reverse: "set (sort_reverse key xs) = set xs"
  by (simp add: sort_reverse_def)

lemma length_sort_reverse: "length (sort_reverse key xs) = length xs"
  by (simp add: sort_reverse_def)

lemma sorted_sort_reverse: "sorted_wrt (\<lambda>a b. key b \<le> key a) (sort_reverse key xs)"
proof -
  have "sorted (map key (sort_key key (rev xs)))"
    by (rule sorted_sort_key)
  then have "sorted_wrt (\<lambda>a b. key a \<le> key b) (sort_key key (rev xs))"
    by (simp add: sorted_map)
  then show ?thesis
    by (simp add: sort_reverse_def sorted_wrt_rev)
qed

lemma stable_sort_reverse:
  "filter (\<lambda>x. key x = k) (sort_reverse key xs) = filter (\<lambda>x. key x = k) xs"
proof -
  have "filter (\<lambda>x. key x = k) (sort_key key (rev xs)) = filter (\<lambda>x. key x = k) (rev xs)"
    by (rule sort_key_stable)
  then have "rev (filter (\<lambda>x. key x = k) (sort_key key (rev xs))) = filter (\<lambda>x. key x = k) xs"
    by (simp add: rev_filter)
  then show ?thesis
    by (simp add: sort_reverse_def rev_filter)
qed

lemma take_drop_sorted_reverse:
  assumes "a \<in> set (take n (sort_reverse key xs))" and "b \<in> set (drop n (sort_reverse key xs))"
  shows "key b \<le> key a"
proof -
  have "sorted_wrt (\<lambda>a b. key b \<le> key a) (take n (sort_reverse key xs) @ drop n (sort_reverse key xs))"
    by (simp add: sorted_sort_reverse)
  with assms show ?thesis
    unfolding sorted_wrt_append by blast
qed

lemma newest_scenario:
  assumes len: "length listing = 12" and all_xml: "list_all is_xml listing"
    and dist: "distinct (map st_mtime listing)"
  defines "result \<equiv> get_newest_files (Some listing) 10"
  shows "length result = 10 \<and> set result \<subseteq> set listing \<and> card (set listing - set result) = 2 \<and>
         (\<forall>a\<in>set result. \<forall>b\<in>set listing - set result. st_mtime b < st_mtime a)"
proof -
  define ordered where "ordered = sort_reverse st_mtime listing"
  have flt: "filter is_xml listing = listing"
    using all_xml by (simp add: list_all_iff)
  have res: "result = take 10 ordered"
    by (simp add: result_def get_newest_files_def slice_to_def flt ordered_def)
  have ms: "mset ordered = mset listing"
    by (simp add: ordered_def mset_sort_reverse)
  have lo: "length ordered = 12"
    using len by (simp add: ordered_def length_sort_reverse)
  have so: "set ordered = set listing"
    by (simp add: ordered_def set_sort_reverse)
  have "mset (map st_mtime ordered) = mset (map st_mtime listing)"
    using ms by (metis mset_map)
  then have dm: "distinct (map st_mtime ordered)"
    using dist by (metis mset_eq_imp_distinct_iff)
  then have do: "distinct ordered"
    by (simp add: distinct_map)
  have split: "ordered = take 10 ordered @ drop 10 ordered"
    by simp
  have disj: "set (take 10 ordered) \<inter> set (drop 10 ordered) = {}"
    using do by (metis split distinct_append)
  have un: "set listing = set (take 10 ordered) \<union> set (drop 10 ordered)"
    by (metis so split set_append)
  have rest: "set listing - set result = set (drop 10 ordered)"
    using disj un res by auto
  have "distinct (drop 10 ordered)"
    using do by simp
  then have "card (set (drop 10 ordered)) = length (drop 10 ordered)"
    by (rule distinct_card)
  then have c2: "card (set listing - set result) = 2"
    using rest lo by simp
  have newer: "st_mtime b < st_mtime a"
    if a: "a \<in> set result" and b: "b \<in> set listing - set result" for a b
  proof -
    have a': "a \<in> set (take 10 ordered)" using a res by simp
    have b': "b \<in> set (drop 10 ordered)" using b rest by simp
    have le: "st_mtime b \<le> st_mtime a"
      using a' b' unfolding ordered_def by (rule take_drop_sorted_reverse)
    have "distinct (map st_mtime (take 10 ordered) @ map st_mtime (drop 10 ordered))"
      using dm by (metis split map_append)
    then have "st_mtime ` set (take 10 ordered) \<inter> st_mtime ` set (drop 10 ordered) = {}"
      by simp
    then have "st_mtime a \<noteq> st_mtime b"
      using a' b' by blast
    with le show ?thesis by simp
  qed
  have "length result = 10"
    using res lo by simp
  moreover have "set result \<subseteq> set listing"
    using un res by auto
  ultimately show ?thesis
    using c2 newer by blast
qed

text \<open>
  Claim C6. Given a listing and a count \<open>max_files\<close> that is not negative,
  \<open>get_newest_files\<close> returns the first \<open>max_files\<close> entries of the candidates in
  order, where the candidates are the entries whose name ends in \<open>.xml\<close> in any mix of
  upper and lower case, ordered by modification time, newest first, entries with the
  same time in the order of the listing. For a listing of twelve XML files with
  different times and \<open>max_files = 10\<close>, ten files are selected, the two left out are
  files of the listing, and each of them is older than every selected file.
\<close>

theorem get_newest_files_selects:
  assumes "0 \<le> max_files"
  shows "get_newest_files (Some listing) max_files =
           take (nat max_files) (sort_reverse st_mtime (filter is_xml listing)) \<and>
         mset (sort_reverse st_mtime (filter is_xml listing)) = mset (filter is_xml listing) \<and>
         sorted_wrt (\<lambda>a b. st_mtime b \<le> st_mtime a) (sort_reverse st_mtime (filter is_xml listing)) \<and>
         (\<forall>t. filter (\<lambda>f. st_mtime f = t) (sort_reverse st_mtime (filter is_xml listing)) =
              filter (\<lambda>f. st_mtime f = t) (filter is_xml listing)) \<and>
         (\<forall>f. is_xml f \<longleftrightarrow>
            (\<exists>stem x m l. filename f = stem @ [CHR ''.'', x, m, l] \<and>
               (x = CHR ''x'' \<or> x = CHR ''X'') \<and> (m = CHR ''m'' \<or> m = CHR ''M'') \<and>
               (l = CHR ''l'' \<or> l = CHR ''L''))) \<and>
         (length listing = 12 \<and> list_all is_xml listing \<and> distinct (map st_mtime listing) \<and>
          max_files = 10 \<longrightarrow>
            length (get_newest_files (Some listing) max_files) = 10 \<and>
            set (get_newest_files (Some listing) max_files) \<subseteq> set listing \<and>
            card (set listing - set (get_newest_files (Some listing) max_files)) = 2 \<and>
            (\<forall>a\<in>set (get_newest_files (Some listing) max_files).
               \<forall>b\<in>set listing - set (get_newest_files (Some listing) max_files).
                 st_mtime b < st_mtime a))"
proof -
  have "get_newest_files (Some listing) max_files =
           take (nat max_files) (sort_reverse st_mtime (filter is_xml listing))"
    using assms by (simp add: get_newest_files_def slice_to_def)
  moreover have "\<forall>f. is_xml f \<longleftrightarrow>
            (\<exists>stem x m l. filename f = stem @ [CHR ''.'', x, m, l] \<and>
               (x = CHR ''x'' \<or> x = CHR ''X'') \<and> (m = CHR ''m'' \<or> m = CHR ''M'') \<and>
               (l = CHR ''l'' \<or> l = CHR ''L''))"
    using is_xml_iff by blast
  moreover have "length listing = 12 \<and> list_all is_xml listing \<and> distinct (map st_mtime listing) \<and>
          max_files = 10 \<longrightarrow>
            length (get_newest_files (Some listing) max_files) = 10 \<and>
            set (get_newest_files (Some listing) max_files) \<subseteq> set listing \<and>
            card (set listing - set (get_newest_files (Some listing) max_files)) = 2 \<and>
            (\<forall>a\<in>set (get_newest_files (Some listing) max_files).
               \<forall>b\<in>set listing - set (get_newest_files (Some listing) max_files).
                 st_mtime b < st_mtime a)"
    using newest_scenario by blast
  ultimately show ?thesis
    using mset_sort_reverse [of st_mtime "filter is_xml listing"]
      sorted_sort_reverse [of st_mtime "filter is_xml listing"]
      stable_sort_reverse [of st_mtime _ "filter is_xml listing"]
    by blast
qed

theorem get_newest_files_selects_witness:
  "(0::int) \<le> 10 \<and> length example_listing = 12 \<and> list_all is_xml example_listing \<and>
   distinct (map st_mtime example_listing) \<and>
   get_newest_files (Some example_listing) 10 =
     take 10 (sort_reverse st_mtime (filter is_xml example_listing)) \<and>
   length (get_newest_files (Some example_listing) 10) = 10 \<and>
   card (set example_listing - set (get_newest_files (Some example_listing) 10)) = 2"
proof -
  have l: "length example_listing = 12"
    by (simp add: example_listing_def)
  have x: "list_all is_xml example_listing"
    by (simp add: example_listing_def is_xml_def endswith_def lower_def lower_char_def
        char_eq_iff_nat)
  have d: "distinct (map st_mtime example_listing)"
    by (simp add: example_listing_def)
  have z: "(0::int) \<le> 10"
    by simp
  note sel = get_newest_files_selects [OF z, of example_listing]
  from sel have a: "get_newest_files (Some example_listing) 10 =
      take 10 (sort_reverse st_mtime (filter is_xml example_listing))"
    by simp
  from sel have "length example_listing = 12 \<and> list_all is_xml example_listing \<and>
      distinct (map st_mtime example_listing) \<and> (10::int) = 10 \<longrightarrow>
      length (get_newest_files (Some example_listing) 10) = 10 \<and>
      card (set example_listing - set (get_newest_files (Some example_listing) 10)) = 2"
    by blast
  with l x d have b: "length (get_newest_files (Some example_listing) 10) = 10 \<and>
      card (set example_listing - set (get_newest_files (Some example_listing) 10)) = 2"
    by simp
  from z l x d a b show ?thesis
    by blast
qed

section \<open>Properties of the extraction and of the ordering\<close>

lemma start_date_items_shape:
  "start_date_items tr = Some items \<Longrightarrow>
     \<exists>a b. items = [(''TransactionStartDate'', Str a), (''RawDate'', Str b)]"
  by (auto simp: start_date_items_def split: option.splits)

lemma quantity_items_shape:
  "quantity_items to_float tr = Some items \<Longrightarrow>
     \<exists>t q. items = [(''TransactionQuantity'', Str t), (''RawQuantity'', Float q)]"
  by (auto simp: quantity_items_def split: option.splits)

lemma transaction_number_items_shape:
  "\<exists>v. transaction_number_items tr = [(''TransactionNumber'', v)]"
  by (simp add: transaction_number_items_def split: option.splits)

lemma dispenser_number_items_shape:
  "\<exists>v. dispenser_number_items tr = [(''DispenserNumber'', v)]"
  by (simp add: dispenser_number_items_def split: option.splits)

lemma article_number_items_shape:
  "\<exists>v w. article_number_items tr = [(''ArticleNumber'', v), (''RawArticleNumber'', w)]"
  by (simp add: article_number_items_def split: option.splits)

lemma kennzeichen_items_shape:
  "\<exists>v. kennzeichen_items tr = [(''Kennzeichen'', v)]"
  by (simp add: kennzeichen_items_def split: option.splits)

lemma parse_xml_file_parts:
  assumes "parse_xml_file to_float doc = Some r"
  shows "\<exists>tree_root tr date_items amount_items.
           doc = Xml tree_root \<and> find_descendant ''Transaction'' tree_root = Some tr \<and>
           start_date_items tr = Some date_items \<and>
           quantity_items to_float tr = Some amount_items \<and>
           r = transaction_number_items tr @ date_items @ dispenser_number_items tr @
               article_number_items tr @ amount_items @ kennzeichen_items tr"
  using assms by (auto simp: parse_xml_file_def split: document.splits option.splits)

lemma parse_xml_file_shape:
  assumes "parse_xml_file to_float doc = Some r"
  shows "\<exists>n a b d art raw t q k.
           r = [(''TransactionNumber'', n), (''TransactionStartDate'', Str a), (''RawDate'', Str b),
                (''DispenserNumber'', d), (''ArticleNumber'', art), (''RawArticleNumber'', raw),
                (''TransactionQuantity'', Str t), (''RawQuantity'', Float q), (''Kennzeichen'', k)]"
proof -
  from parse_xml_file_parts [OF assms] obtain tr date_items amount_items where
    d: "start_date_items tr = Some date_items" and
    q: "quantity_items to_float tr = Some amount_items" and
    r: "r = transaction_number_items tr @ date_items @ dispenser_number_items tr @
               article_number_items tr @ amount_items @ kennzeichen_items tr"
    by blast
  from start_date_items_shape [OF d] quantity_items_shape [OF q]
    transaction_number_items_shape [of tr] dispenser_number_items_shape [of tr]
    article_number_items_shape [of tr] kennzeichen_items_shape [of tr] r
  show ?thesis
    by auto
qed

lemma parse_xml_file_sort_key:
  assumes "parse_xml_file to_float doc = Some r"
  shows "is_str (sort_key_of r) \<and> map_of r ''RawDate'' = Some (Str (sort_key_string r)) \<and> r \<noteq> []"
proof -
  from parse_xml_file_shape [OF assms] obtain n a b d art raw t q k where
    "r = [(''TransactionNumber'', n), (''TransactionStartDate'', Str a), (''RawDate'', Str b),
                (''DispenserNumber'', d), (''ArticleNumber'', art), (''RawArticleNumber'', raw),
                (''TransactionQuantity'', Str t), (''RawQuantity'', Float q), (''Kennzeichen'', k)]"
    by blast
  then show ?thesis
    by (simp add: sort_key_of_def sort_key_string_def dict_get_def)
qed

lemma parse_files_sort_key:
  "x \<in> set (parse_files to_float files) \<Longrightarrow>
     is_str (sort_key_of x) \<and> map_of x ''RawDate'' = Some (Str (sort_key_string x))"
  by (auto simp: parse_files_def map_filter_def dest: parse_xml_file_sort_key split: option.splits if_splits)

lemma digit_char_in_range: "n < 10 \<Longrightarrow> in_range CHR ''0'' CHR ''9'' (digit_char n)"
  by (simp add: in_range_def digit_char_def less_eq_char_def)

lemma digit_value_digit_char: "n < 10 \<Longrightarrow> digit_value (digit_char n) = n"
  by (simp add: digit_value_def digit_char_def)

lemma two_digits_pad2: "n < 100 \<Longrightarrow> two_digits (pad2 n @ rest) = Some (n, rest)"
  by (simp add: two_digits_def pad2_def digit_char_in_range digit_value_digit_char)


lemma decimal_digits4:
  fixes n :: nat
  shows "1000 * (n div 1000) + 100 * (n div 100 mod 10) + 10 * (n div 10 mod 10) + n mod 10 = n"
proof -
  define a where "a = n div 10"
  define b where "b = a div 10"
  define c where "c = b div 10"
  have n: "n = 10 * a + n mod 10" by (simp add: a_def)
  have a: "a = 10 * b + a mod 10" by (simp add: b_def)
  have b: "b = 10 * c + b mod 10" by (simp add: c_def)
  have b': "n div 100 = b" by (simp add: b_def a_def div_mult2_eq)
  have c': "n div 1000 = c" by (simp add: c_def b_def a_def div_mult2_eq)
  have "1000 * c + 100 * (b mod 10) + 10 * (a mod 10) + n mod 10 = n"
    using n a b by linarith
  then show ?thesis
    by (simp add: b' c' a_def [symmetric])
qed

lemma field_Y_pad4: "n < 10000 \<Longrightarrow> field_Y (pad4 n @ rest) = Some (n, rest)"
proof -
  assume n: "n < 10000"
  then have "n div 1000 mod 10 = n div 1000"
    by simp
  then show ?thesis
    by (simp add: pad4_def digit_char_in_range digit_value_digit_char decimal_digits4)
qed


lemma days_in_month_le: "days_in_month y m \<le> 31"
  by (simp add: days_in_month_def)

lemma match_iso_isoformat:
  assumes "valid_datetime dt"
  shows "match_iso (isoformat dt) = Some dt"
proof -
  have d: "day dt \<le> 31"
    using assms days_in_month_le [of "year dt" "month dt"] by (simp add: valid_datetime_def)
  from assms d have b: "year dt < 10000" "month dt < 100" "day dt < 100" "hour dt < 100"
    "minute dt < 100" "second dt < 100"
    by (simp_all add: valid_datetime_def)
  have last: "two_digits (pad2 (second dt)) = Some (second dt, [])"
    using two_digits_pad2 [OF b(6), of "[]"] by simp
  show ?thesis
    by (simp add: match_iso_def isoformat_def field_Y_pad4 [OF b(1)] two_digits_pad2 [OF b(2)]
        two_digits_pad2 [OF b(3)] two_digits_pad2 [OF b(4)] two_digits_pad2 [OF b(5)] last)
qed

lemma is_iso8601_isoformat: "valid_datetime dt \<Longrightarrow> is_iso8601 (isoformat dt)"
  by (simp add: is_iso8601_def match_iso_isoformat)

lemma strptime_valid: "strptime t fmt = Some dt \<Longrightarrow> valid_datetime dt"
  by (auto simp: strptime_def split: option.splits if_splits)

lemma is_iso8601_epoch: "is_iso8601 ''1970-01-01T00:00:00''"
  by (simp add: is_iso8601_def match_iso_def two_digits_def in_range_def digit_value_def
      valid_datetime_def days_in_month_def)

lemma digit_char_simps:
  "digit_char 0 = CHR ''0''" "digit_char (Suc 0) = CHR ''1''" "digit_char 2 = CHR ''2''"
  "digit_char 3 = CHR ''3''" "digit_char 4 = CHR ''4''" "digit_char 5 = CHR ''5''"
  "digit_char 6 = CHR ''6''" "digit_char 7 = CHR ''7''" "digit_char 8 = CHR ''8''"
  "digit_char 9 = CHR ''9''"
  by (simp_all add: digit_char_def char_eq_iff_nat)

lemmas parse_eval =
  parse_xml_file_def find_descendant_def find_child_def text_value_def
  transaction_number_items_def start_date_items_def dispenser_number_items_def
  article_number_items_def quantity_items_def kennzeichen_items_def
  strptime_def match_format_def time_fields_def field_m_def field_d_def field_H_def
  field_M_def field_S_def in_range_def digit_value_def is_space_def valid_datetime_def
  days_in_month_def is_leap_def isoformat_def strftime_def year_text_def pad2_def pad4_def
  digit_char_simps
  example_float_def

lemma parse_xml_file_items:
  assumes "parse_xml_file to_float (Xml tree_root) = Some r"
  shows "\<exists>tr n a b d art raw t q k.
           find_descendant ''Transaction'' tree_root = Some tr \<and>
           transaction_number_items tr = [(''TransactionNumber'', n)] \<and>
           start_date_items tr = Some [(''TransactionStartDate'', Str a), (''RawDate'', Str b)] \<and>
           dispenser_number_items tr = [(''DispenserNumber'', d)] \<and>
           article_number_items tr = [(''ArticleNumber'', art), (''RawArticleNumber'', raw)] \<and>
           quantity_items to_float tr =
             Some [(''TransactionQuantity'', Str t), (''RawQuantity'', Float q)] \<and>
           kennzeichen_items tr = [(''Kennzeichen'', k)] \<and>
           r = [(''TransactionNumber'', n), (''TransactionStartDate'', Str a), (''RawDate'', Str b),
                (''DispenserNumber'', d), (''ArticleNumber'', art), (''RawArticleNumber'', raw),
                (''TransactionQuantity'', Str t), (''RawQuantity'', Float q), (''Kennzeichen'', k)]"
proof -
  from parse_xml_file_parts [OF assms] obtain tr date_items amount_items where
    t: "find_descendant ''Transaction'' tree_root = Some tr" and
    d: "start_date_items tr = Some date_items" and
    q: "quantity_items to_float tr = Some amount_items" and
    r: "r = transaction_number_items tr @ date_items @ dispenser_number_items tr @
               article_number_items tr @ amount_items @ kennzeichen_items tr"
    by blast
  from start_date_items_shape [OF d] quantity_items_shape [OF q]
    transaction_number_items_shape [of tr] dispenser_number_items_shape [of tr]
    article_number_items_shape [of tr] kennzeichen_items_shape [of tr] r t d q
  show ?thesis
    by auto
qed

lemma start_date_items_raw_date:
  assumes "start_date_items tr = Some [(''TransactionStartDate'', Str a), (''RawDate'', Str b)]"
  shows "case find_child ''TransactionStartDate'' tr of
           None \<Rightarrow> a = ''N/A'' \<and> b = ''1970-01-01T00:00:00''
         | Some e \<Rightarrow>
             (\<exists>t. elem_text e = Some t \<and>
                (case strptime t Ymd_HMS of
                   Some dt \<Rightarrow> a = strftime dt \<and> b = isoformat dt
                 | None \<Rightarrow>
                     (case strptime t dmY_HMS of
                        Some dt \<Rightarrow> a = t \<and> b = isoformat dt
                      | None \<Rightarrow> a = t \<and> b = t)))"
  using assms by (auto simp: start_date_items_def split: option.splits)

text \<open>
  Claim C1, as the code has it. In the record of a parsed document \<open>RawDate\<close> is a
  timestamp of ISO 8601 when the \<open>TransactionStartDate\<close> element is absent (the
  sentinel \<open>1970-01-01T00:00:00\<close>) or its text matches one of the two known formats
  (the date read, in ISO form). When the element is present and its text matches
  neither format, \<open>RawDate\<close> is that text, unchanged. The claim as stated, that the
  sentinel is stored in this last case, fails on the second theorem below.
\<close>

theorem raw_date_of_parsed_document:
  assumes "parse_xml_file to_float (Xml tree_root) = Some r"
  shows "\<exists>tr. find_descendant ''Transaction'' tree_root = Some tr \<and>
           (case find_child ''TransactionStartDate'' tr of
              None \<Rightarrow>
                map_of r ''RawDate'' = Some (Str ''1970-01-01T00:00:00'') \<and>
                is_iso8601 ''1970-01-01T00:00:00''
            | Some e \<Rightarrow>
                (\<exists>t. elem_text e = Some t \<and>
                   (case strptime t Ymd_HMS of
                      Some dt \<Rightarrow>
                        map_of r ''RawDate'' = Some (Str (isoformat dt)) \<and>
                        is_iso8601 (isoformat dt)
                    | None \<Rightarrow>
                        (case strptime t dmY_HMS of
                           Some dt \<Rightarrow>
                             map_of r ''RawDate'' = Some (Str (isoformat dt)) \<and>
                             is_iso8601 (isoformat dt)
                         | None \<Rightarrow> map_of r ''RawDate'' = Some (Str t)))))"
proof -
  from parse_xml_file_items [OF assms] obtain tr n a b d art raw t q k where
    tr: "find_descendant ''Transaction'' tree_root = Some tr" and
    date: "start_date_items tr = Some [(''TransactionStartDate'', Str a), (''RawDate'', Str b)]" and
    r: "r = [(''TransactionNumber'', n), (''TransactionStartDate'', Str a), (''RawDate'', Str b),
                (''DispenserNumber'', d), (''ArticleNumber'', art), (''RawArticleNumber'', raw),
                (''TransactionQuantity'', Str t), (''RawQuantity'', Float q), (''Kennzeichen'', k)]"
    by blast
  have look: "map_of r ''RawDate'' = Some (Str b)"
    by (simp add: r)
  have iso: "is_iso8601 (isoformat dt)" if "strptime s fmt = Some dt" for s fmt dt
    using that by (intro is_iso8601_isoformat strptime_valid)
  from start_date_items_raw_date [OF date]
  have "case find_child ''TransactionStartDate'' tr of
              None \<Rightarrow>
                map_of r ''RawDate'' = Some (Str ''1970-01-01T00:00:00'') \<and>
                is_iso8601 ''1970-01-01T00:00:00''
            | Some e \<Rightarrow>
                (\<exists>t. elem_text e = Some t \<and>
                   (case strptime t Ymd_HMS of
                      Some dt \<Rightarrow>
                        map_of r ''RawDate'' = Some (Str (isoformat dt)) \<and>
                        is_iso8601 (isoformat dt)
                    | None \<Rightarrow>
                        (case strptime t dmY_HMS of
                           Some dt \<Rightarrow>
                             map_of r ''RawDate'' = Some (Str (isoformat dt)) \<and>
                             is_iso8601 (isoformat dt)
                         | None \<Rightarrow> map_of r ''RawDate'' = Some (Str t))))"
    by (auto simp: look is_iso8601_epoch iso split: option.splits)
  with tr show ?thesis
    by blast
qed


theorem raw_date_of_parsed_document_witness:
  "parse_xml_file example_float (Xml example_doc_a) =
     Some [(''TransactionNumber'', Str ''4711''),
           (''TransactionStartDate'', Str ''05.03.2024 10:11:12''),
           (''RawDate'', Str ''2024-03-05T10:11:12''),
           (''DispenserNumber'', Str ''2''), (''ArticleNumber'', Str ''AVGAS''),
           (''RawArticleNumber'', Str ''1''), (''TransactionQuantity'', Str ''12.5''),
           (''RawQuantity'', Float 12.5), (''Kennzeichen'', Str ''D-EABC'')] \<and>
   is_iso8601 ''2024-03-05T10:11:12''"
proof -
  have p: "parse_xml_file example_float (Xml example_doc_a) =
     Some [(''TransactionNumber'', Str ''4711''),
           (''TransactionStartDate'', Str ''05.03.2024 10:11:12''),
           (''RawDate'', Str ''2024-03-05T10:11:12''),
           (''DispenserNumber'', Str ''2''), (''ArticleNumber'', Str ''AVGAS''),
           (''RawArticleNumber'', Str ''1''), (''TransactionQuantity'', Str ''12.5''),
           (''RawQuantity'', Float 12.5), (''Kennzeichen'', Str ''D-EABC'')]"
    by (simp add: example_doc_a_def parse_eval)
  from raw_date_of_parsed_document [OF p] have "is_iso8601 ''2024-03-05T10:11:12''"
    by (simp add: example_doc_a_def parse_eval)
  with p show ?thesis
    by (rule conjI)
qed

theorem raw_date_unparsed_counterexample:
  "parse_xml_file example_float (Xml example_doc_slashes) =
     Some [(''TransactionNumber'', Str ''4713''),
           (''TransactionStartDate'', Str ''05/03/2024 10:11''),
           (''RawDate'', Str ''05/03/2024 10:11''),
           (''DispenserNumber'', Str ''N/A''), (''ArticleNumber'', Str ''N/A''),
           (''RawArticleNumber'', Str ''N/A''), (''TransactionQuantity'', Str ''N/A''),
           (''RawQuantity'', Float 0), (''Kennzeichen'', Str ''N/A'')] \<and>
   \<not> is_iso8601 ''05/03/2024 10:11''"
  by (simp add: example_doc_slashes_def parse_eval is_iso8601_def match_iso_def)

text \<open>
  Claim C7, as the code has it. \<open>parse_xml_file\<close> returns a record exactly when the
  document has a \<open>Transaction\<close> element below its root and neither the start date
  element nor the quantity element is present without text (\<open>strptime\<close> and \<open>float\<close>
  raise \<open>TypeError\<close> on \<open>None\<close>, and the function then returns \<open>None\<close>): finding the
  transaction element is not enough. A record that is returned has the nine keys,
  always in the same order. The display date, \<open>RawDate\<close> and the display amount are
  strings and \<open>RawQuantity\<close> is a float, with the sentinels \<open>N/A\<close>,
  \<open>1970-01-01T00:00:00\<close> and \<open>0.0\<close> where the element is absent. The number, the
  dispenser and the tag are \<open>N/A\<close> where the element is absent, the element's text
  where it has one, and \<open>None\<close> where the element is present without text. The article
  is \<open>N/A\<close> with the raw code \<open>N/A\<close> where the element is absent, and \<open>None\<close> with
  the raw code \<open>None\<close> where it is present without text; where it has text the raw
  code is that text and the article is \<open>AVGAS\<close> for the text \<open>1\<close>, \<open>MOGAS\<close> for the
  text \<open>2\<close> and the text itself otherwise. The claim as stated, that no value is
  null, fails on the last theorem of this block, which also shows a document whose
  transaction element is found and whose extraction returns no record.
\<close>

theorem parsed_record_fields:
  "(parse_xml_file to_float (Xml tree_root) \<noteq> None) =
     (\<exists>tr. find_descendant ''Transaction'' tree_root = Some tr \<and>
        (case find_child ''TransactionStartDate'' tr of
           None \<Rightarrow> True | Some e \<Rightarrow> elem_text e \<noteq> None) \<and>
        (case find_child ''TransactionQuantity'' tr of
           None \<Rightarrow> True | Some e \<Rightarrow> elem_text e \<noteq> None)) \<and>
   (\<forall>r. parse_xml_file to_float (Xml tree_root) = Some r \<longrightarrow>
      map fst r = [''TransactionNumber'', ''TransactionStartDate'', ''RawDate'',
                   ''DispenserNumber'', ''ArticleNumber'', ''RawArticleNumber'',
                   ''TransactionQuantity'', ''RawQuantity'', ''Kennzeichen''] \<and>
      is_str (dict_get r ''TransactionStartDate'' PyNone) \<and>
      is_str (dict_get r ''RawDate'' PyNone) \<and>
      is_str (dict_get r ''TransactionQuantity'' PyNone) \<and>
      is_float (dict_get r ''RawQuantity'' PyNone) \<and>
      (\<exists>tr. find_descendant ''Transaction'' tree_root = Some tr \<and>
         dict_get r ''TransactionNumber'' PyNone =
           (case find_child ''TransactionNumber'' tr of
              None \<Rightarrow> Str ''N/A''
            | Some e \<Rightarrow> (case elem_text e of None \<Rightarrow> PyNone | Some s \<Rightarrow> Str s)) \<and>
         dict_get r ''DispenserNumber'' PyNone =
           (case find_descendant ''DispenserNumber'' tr of
              None \<Rightarrow> Str ''N/A''
            | Some e \<Rightarrow> (case elem_text e of None \<Rightarrow> PyNone | Some s \<Rightarrow> Str s)) \<and>
         dict_get r ''Kennzeichen'' PyNone =
           (case find_descendant ''AdditionalEntry'' tr of
              None \<Rightarrow> Str ''N/A''
            | Some e \<Rightarrow> (case elem_text e of None \<Rightarrow> PyNone | Some s \<Rightarrow> Str s)) \<and>
         (case find_descendant ''ArticleNumber'' tr of
            None \<Rightarrow>
              dict_get r ''ArticleNumber'' PyNone = Str ''N/A'' \<and>
              dict_get r ''RawArticleNumber'' PyNone = Str ''N/A''
          | Some e \<Rightarrow>
              (case elem_text e of
                 None \<Rightarrow>
                   dict_get r ''ArticleNumber'' PyNone = PyNone \<and>
                   dict_get r ''RawArticleNumber'' PyNone = PyNone
               | Some s \<Rightarrow>
                   dict_get r ''ArticleNumber'' PyNone =
                     Str (if s = ''1'' then ''AVGAS'' else if s = ''2'' then ''MOGAS'' else s) \<and>
                   dict_get r ''RawArticleNumber'' PyNone = Str s)) \<and>
         (case find_child ''TransactionStartDate'' tr of
            None \<Rightarrow>
              dict_get r ''TransactionStartDate'' PyNone = Str ''N/A'' \<and>
              dict_get r ''RawDate'' PyNone = Str ''1970-01-01T00:00:00''
          | Some e \<Rightarrow> elem_text e \<noteq> None) \<and>
         (case find_child ''TransactionQuantity'' tr of
            None \<Rightarrow>
              dict_get r ''TransactionQuantity'' PyNone = Str ''N/A'' \<and>
              dict_get r ''RawQuantity'' PyNone = Float 0
          | Some e \<Rightarrow>
              (\<exists>t. elem_text e = Some t \<and>
                 dict_get r ''TransactionQuantity'' PyNone = Str t \<and>
                 dict_get r ''RawQuantity'' PyNone =
                   Float (case to_float t of Some q \<Rightarrow> q | None \<Rightarrow> 0)))))"
proof (intro conjI allI impI)
  show "(parse_xml_file to_float (Xml tree_root) \<noteq> None) =
     (\<exists>tr. find_descendant ''Transaction'' tree_root = Some tr \<and>
        (case find_child ''TransactionStartDate'' tr of
           None \<Rightarrow> True | Some e \<Rightarrow> elem_text e \<noteq> None) \<and>
        (case find_child ''TransactionQuantity'' tr of
           None \<Rightarrow> True | Some e \<Rightarrow> elem_text e \<noteq> None))"
    by (auto simp: parse_xml_file_def start_date_items_def quantity_items_def
        split: option.splits)
next
  fix r
  assume p: "parse_xml_file to_float (Xml tree_root) = Some r"
  from parse_xml_file_items [OF p] obtain tr n a b d art raw t q k where
    tr: "find_descendant ''Transaction'' tree_root = Some tr" and
    number: "transaction_number_items tr = [(''TransactionNumber'', n)]" and
    date: "start_date_items tr = Some [(''TransactionStartDate'', Str a), (''RawDate'', Str b)]" and
    dispenser: "dispenser_number_items tr = [(''DispenserNumber'', d)]" and
    article: "article_number_items tr = [(''ArticleNumber'', art), (''RawArticleNumber'', raw)]" and
    amount: "quantity_items to_float tr =
             Some [(''TransactionQuantity'', Str t), (''RawQuantity'', Float q)]" and
    tag: "kennzeichen_items tr = [(''Kennzeichen'', k)]" and
    r: "r = [(''TransactionNumber'', n), (''TransactionStartDate'', Str a), (''RawDate'', Str b),
                (''DispenserNumber'', d), (''ArticleNumber'', art), (''RawArticleNumber'', raw),
                (''TransactionQuantity'', Str t), (''RawQuantity'', Float q), (''Kennzeichen'', k)]"
    by blast
  show "map fst r = [''TransactionNumber'', ''TransactionStartDate'', ''RawDate'',
                      ''DispenserNumber'', ''ArticleNumber'', ''RawArticleNumber'',
                      ''TransactionQuantity'', ''RawQuantity'', ''Kennzeichen'']"
    by (simp add: r)
  have look: "dict_get r ''TransactionNumber'' PyNone = n"
    "dict_get r ''TransactionStartDate'' PyNone = Str a"
    "dict_get r ''RawDate'' PyNone = Str b"
    "dict_get r ''DispenserNumber'' PyNone = d"
    "dict_get r ''ArticleNumber'' PyNone = art"
    "dict_get r ''RawArticleNumber'' PyNone = raw"
    "dict_get r ''TransactionQuantity'' PyNone = Str t"
    "dict_get r ''RawQuantity'' PyNone = Float q"
    "dict_get r ''Kennzeichen'' PyNone = k"
    by (simp_all add: r dict_get_def)
  show "is_str (dict_get r ''TransactionStartDate'' PyNone)"
    "is_str (dict_get r ''RawDate'' PyNone)"
    "is_str (dict_get r ''TransactionQuantity'' PyNone)"
    "is_float (dict_get r ''RawQuantity'' PyNone)"
    by (simp_all add: look)
  have n: "n = (case find_child ''TransactionNumber'' tr of
                 None \<Rightarrow> Str ''N/A''
               | Some e \<Rightarrow> (case elem_text e of None \<Rightarrow> PyNone | Some s \<Rightarrow> Str s))"
    using number by (auto simp: transaction_number_items_def text_value_def split: option.splits)
  have d: "d = (case find_descendant ''DispenserNumber'' tr of
                 None \<Rightarrow> Str ''N/A''
               | Some e \<Rightarrow> (case elem_text e of None \<Rightarrow> PyNone | Some s \<Rightarrow> Str s))"
    using dispenser by (auto simp: dispenser_number_items_def text_value_def split: option.splits)
  have k: "k = (case find_descendant ''AdditionalEntry'' tr of
                 None \<Rightarrow> Str ''N/A''
               | Some e \<Rightarrow> (case elem_text e of None \<Rightarrow> PyNone | Some s \<Rightarrow> Str s))"
    using tag by (auto simp: kennzeichen_items_def text_value_def split: option.splits)
  have art: "case find_descendant ''ArticleNumber'' tr of
               None \<Rightarrow> art = Str ''N/A'' \<and> raw = Str ''N/A''
             | Some e \<Rightarrow>
                 (case elem_text e of
                    None \<Rightarrow> art = PyNone \<and> raw = PyNone
                  | Some s \<Rightarrow>
                      art = Str (if s = ''1'' then ''AVGAS'' else if s = ''2'' then ''MOGAS'' else s) \<and>
                      raw = Str s)"
    using article
    by (auto simp: article_number_items_def text_value_def split: option.splits if_splits)
  have dt: "case find_child ''TransactionStartDate'' tr of
            None \<Rightarrow> a = ''N/A'' \<and> b = ''1970-01-01T00:00:00''
          | Some e \<Rightarrow> elem_text e \<noteq> None"
    using start_date_items_raw_date [OF date] by (auto split: option.splits)
  have am: "case find_child ''TransactionQuantity'' tr of
            None \<Rightarrow> t = ''N/A'' \<and> q = 0
          | Some e \<Rightarrow>
              (\<exists>u. elem_text e = Some u \<and> t = u \<and>
                 q = (case to_float u of Some q \<Rightarrow> q | None \<Rightarrow> 0))"
    using amount by (auto simp: quantity_items_def split: option.splits)
  show "\<exists>tr. find_descendant ''Transaction'' tree_root = Some tr \<and>
         dict_get r ''TransactionNumber'' PyNone =
           (case find_child ''TransactionNumber'' tr of
              None \<Rightarrow> Str ''N/A''
            | Some e \<Rightarrow> (case elem_text e of None \<Rightarrow> PyNone | Some s \<Rightarrow> Str s)) \<and>
         dict_get r ''DispenserNumber'' PyNone =
           (case find_descendant ''DispenserNumber'' tr of
              None \<Rightarrow> Str ''N/A''
            | Some e \<Rightarrow> (case elem_text e of None \<Rightarrow> PyNone | Some s \<Rightarrow> Str s)) \<and>
         dict_get r ''Kennzeichen'' PyNone =
           (case find_descendant ''AdditionalEntry'' tr of
              None \<Rightarrow> Str ''N/A''
            | Some e \<Rightarrow> (case elem_text e of None \<Rightarrow> PyNone | Some s \<Rightarrow> Str s)) \<and>
         (case find_descendant ''ArticleNumber'' tr of
            None \<Rightarrow>
              dict_get r ''ArticleNumber'' PyNone = Str ''N/A'' \<and>
              dict_get r ''RawArticleNumber'' PyNone = Str ''N/A''
          | Some e \<Rightarrow>
              (case elem_text e of
                 None \<Rightarrow>
                   dict_get r ''ArticleNumber'' PyNone = PyNone \<and>
                   dict_get r ''RawArticleNumber'' PyNone = PyNone
               | Some s \<Rightarrow>
                   dict_get r ''ArticleNumber'' PyNone =
                     Str (if s = ''1'' then ''AVGAS'' else if s = ''2'' then ''MOGAS'' else s) \<and>
                   dict_get r ''RawArticleNumber'' PyNone = Str s)) \<and>
         (case find_child ''TransactionStartDate'' tr of
            None \<Rightarrow>
              dict_get r ''TransactionStartDate'' PyNone = Str ''N/A'' \<and>
              dict_get r ''RawDate'' PyNone = Str ''1970-01-01T00:00:00''
          | Some e \<Rightarrow> elem_text e \<noteq> None) \<and>
         (case find_child ''TransactionQuantity'' tr of
            None \<Rightarrow>
              dict_get r ''TransactionQuantity'' PyNone = Str ''N/A'' \<and>
              dict_get r ''RawQuantity'' PyNone = Float 0
          | Some e \<Rightarrow>
              (\<exists>t. elem_text e = Some t \<and>
                 dict_get r ''TransactionQuantity'' PyNone = Str t \<and>
                 dict_get r ''RawQuantity'' PyNone =
                   Float (case to_float t of Some q \<Rightarrow> q | None \<Rightarrow> 0)))"
    unfolding look using tr n d k art dt am
    by (auto split: option.splits)
qed

theorem parsed_record_fields_witness:
  "parse_xml_file example_float (Xml example_doc_a) =
     Some [(''TransactionNumber'', Str ''4711''),
           (''TransactionStartDate'', Str ''05.03.2024 10:11:12''),
           (''RawDate'', Str ''2024-03-05T10:11:12''),
           (''DispenserNumber'', Str ''2''), (''ArticleNumber'', Str ''AVGAS''),
           (''RawArticleNumber'', Str ''1''), (''TransactionQuantity'', Str ''12.5''),
           (''RawQuantity'', Float 12.5), (''Kennzeichen'', Str ''D-EABC'')] \<and>
   (\<exists>tr e. find_descendant ''Transaction'' example_doc_a = Some tr \<and>
      find_descendant ''ArticleNumber'' tr = Some e \<and> elem_text e = Some ''1'') \<and>
   dict_get [(''TransactionNumber'', Str ''4711''),
           (''TransactionStartDate'', Str ''05.03.2024 10:11:12''),
           (''RawDate'', Str ''2024-03-05T10:11:12''),
           (''DispenserNumber'', Str ''2''), (''ArticleNumber'', Str ''AVGAS''),
           (''RawArticleNumber'', Str ''1''), (''TransactionQuantity'', Str ''12.5''),
           (''RawQuantity'', Float 12.5), (''Kennzeichen'', Str ''D-EABC'')]
     ''ArticleNumber'' PyNone = Str ''AVGAS''"
proof -
  have p: "parse_xml_file example_float (Xml example_doc_a) =
     Some [(''TransactionNumber'', Str ''4711''),
           (''TransactionStartDate'', Str ''05.03.2024 10:11:12''),
           (''RawDate'', Str ''2024-03-05T10:11:12''),
           (''DispenserNumber'', Str ''2''), (''ArticleNumber'', Str ''AVGAS''),
           (''RawArticleNumber'', Str ''1''), (''TransactionQuantity'', Str ''12.5''),
           (''RawQuantity'', Float 12.5), (''Kennzeichen'', Str ''D-EABC'')]"
    by (simp add: example_doc_a_def parse_eval)
  have e: "\<exists>tr e. find_descendant ''Transaction'' example_doc_a = Some tr \<and>
      find_descendant ''ArticleNumber'' tr = Some e \<and> elem_text e = Some ''1''"
    by (simp add: example_doc_a_def find_descendant_def)
  from parsed_record_fields [of example_float example_doc_a] p
  have "dict_get [(''TransactionNumber'', Str ''4711''),
           (''TransactionStartDate'', Str ''05.03.2024 10:11:12''),
           (''RawDate'', Str ''2024-03-05T10:11:12''),
           (''DispenserNumber'', Str ''2''), (''ArticleNumber'', Str ''AVGAS''),
           (''RawArticleNumber'', Str ''1''), (''TransactionQuantity'', Str ''12.5''),
           (''RawQuantity'', Float 12.5), (''Kennzeichen'', Str ''D-EABC'')]
     ''ArticleNumber'' PyNone = Str ''AVGAS''"
    by (simp add: dict_get_def)
  with p e show ?thesis
    by blast
qed

theorem parsed_record_null_counterexample:
  "parse_xml_file example_float (Xml example_doc_no_text) =
     Some [(''TransactionNumber'', PyNone),
           (''TransactionStartDate'', Str ''05.03.2024 10:11:12''),
           (''RawDate'', Str ''2024-03-05T10:11:12''),
           (''DispenserNumber'', Str ''N/A''), (''ArticleNumber'', Str ''N/A''),
           (''RawArticleNumber'', Str ''N/A''), (''TransactionQuantity'', Str ''N/A''),
           (''RawQuantity'', Float 0), (''Kennzeichen'', Str ''N/A'')] \<and>
   find_descendant ''Transaction'' example_doc_empty_date =
     Some (Element ''Transaction'' None
       [Element ''TransactionNumber'' (Some ''4714'') [],
        Element ''TransactionStartDate'' None []]) \<and>
   parse_xml_file example_float (Xml example_doc_empty_date) = None"
  by (simp add: example_doc_no_text_def example_doc_empty_date_def parse_eval)

text \<open>
  Claim C8. In the record of a document with an \<open>ArticleNumber\<close> element, the code
  \<open>1\<close> gives the label \<open>AVGAS\<close> and the raw code \<open>1\<close>, the code \<open>2\<close> gives
  \<open>MOGAS\<close> and \<open>2\<close>, and every other code is both the label and the raw code,
  unchanged.
\<close>

theorem article_number_translation:
  assumes "parse_xml_file to_float (Xml tree_root) = Some r"
  shows "\<exists>tr. find_descendant ''Transaction'' tree_root = Some tr \<and>
           (case find_descendant ''ArticleNumber'' tr of
              None \<Rightarrow> True
            | Some e \<Rightarrow>
                (elem_text e = Some ''1'' \<longrightarrow>
                   map_of r ''ArticleNumber'' = Some (Str ''AVGAS'') \<and>
                   map_of r ''RawArticleNumber'' = Some (Str ''1'')) \<and>
                (elem_text e = Some ''2'' \<longrightarrow>
                   map_of r ''ArticleNumber'' = Some (Str ''MOGAS'') \<and>
                   map_of r ''RawArticleNumber'' = Some (Str ''2'')) \<and>
                (\<forall>code. elem_text e = Some code \<and> code \<noteq> ''1'' \<and> code \<noteq> ''2'' \<longrightarrow>
                   map_of r ''ArticleNumber'' = Some (Str code) \<and>
                   map_of r ''RawArticleNumber'' = Some (Str code)))"
proof -
  from parse_xml_file_items [OF assms] obtain tr n a b d art raw t q k where
    tr: "find_descendant ''Transaction'' tree_root = Some tr" and
    article: "article_number_items tr = [(''ArticleNumber'', art), (''RawArticleNumber'', raw)]" and
    r: "r = [(''TransactionNumber'', n), (''TransactionStartDate'', Str a), (''RawDate'', Str b),
                (''DispenserNumber'', d), (''ArticleNumber'', art), (''RawArticleNumber'', raw),
                (''TransactionQuantity'', Str t), (''RawQuantity'', Float q), (''Kennzeichen'', k)]"
    by blast
  have look: "map_of r ''ArticleNumber'' = Some art" "map_of r ''RawArticleNumber'' = Some raw"
    by (simp_all add: r)
  have "case find_descendant ''ArticleNumber'' tr of
              None \<Rightarrow> True
            | Some e \<Rightarrow>
                (elem_text e = Some ''1'' \<longrightarrow> art = Str ''AVGAS'' \<and> raw = Str ''1'') \<and>
                (elem_text e = Some ''2'' \<longrightarrow> art = Str ''MOGAS'' \<and> raw = Str ''2'') \<and>
                (\<forall>code. elem_text e = Some code \<and> code \<noteq> ''1'' \<and> code \<noteq> ''2'' \<longrightarrow>
                   art = Str code \<and> raw = Str code)"
    using article
    by (auto simp: article_number_items_def text_value_def split: option.splits if_splits)
  with tr show ?thesis
    unfolding look by (auto split: option.splits)
qed

theorem article_number_translation_witness:
  "parse_xml_file example_float (Xml example_doc_b) =
     Some [(''TransactionNumber'', Str ''4712''),
           (''TransactionStartDate'', Str ''05.03.2024 10:11:12''),
           (''RawDate'', Str ''2024-03-05T10:11:12''),
           (''DispenserNumber'', Str ''N/A''), (''ArticleNumber'', Str ''7''),
           (''RawArticleNumber'', Str ''7''), (''TransactionQuantity'', Str ''abc''),
           (''RawQuantity'', Float 0), (''Kennzeichen'', Str ''N/A'')] \<and>
   (\<exists>tr e. find_descendant ''Transaction'' example_doc_b = Some tr \<and>
      find_descendant ''ArticleNumber'' tr = Some e \<and> elem_text e = Some ''7'')"
proof -
  have p: "parse_xml_file example_float (Xml example_doc_b) =
     Some [(''TransactionNumber'', Str ''4712''),
           (''TransactionStartDate'', Str ''05.03.2024 10:11:12''),
           (''RawDate'', Str ''2024-03-05T10:11:12''),
           (''DispenserNumber'', Str ''N/A''), (''ArticleNumber'', Str ''7''),
           (''RawArticleNumber'', Str ''7''), (''TransactionQuantity'', Str ''abc''),
           (''RawQuantity'', Float 0), (''Kennzeichen'', Str ''N/A'')]"
    by (simp add: example_doc_b_def parse_eval)
  from article_number_translation [OF p]
  have "\<exists>tr e. find_descendant ''Transaction'' example_doc_b = Some tr \<and>
      find_descendant ''ArticleNumber'' tr = Some e \<and> elem_text e = Some ''7''"
    by (simp add: example_doc_b_def find_descendant_def)
  with p show ?thesis
    by (rule conjI)
qed

text \<open>
  The example server, worked out: the files are taken newest first, and of the two
  records with the same start date the one extracted first stays first.
\<close>

lemma example_selected:
  "get_newest_files (listdir_attr example_server) MAX_FILES =
      [\<lparr>filename = ''c.xml'', st_mtime = 300\<rparr>, \<lparr>filename = ''b.xml'', st_mtime = 200\<rparr>,
       \<lparr>filename = ''a.xml'', st_mtime = 100\<rparr>]"
  by (simp add: example_server_def get_newest_files_def MAX_FILES_def slice_to_def
        sort_reverse_def is_xml_def endswith_def lower_def lower_char_def char_eq_iff_nat)

















section \<open>Properties of the failure paths\<close>

lemma sort_reverse_Nil_iff: "sort_reverse key xs = [] \<longleftrightarrow> xs = []"
  by (metis length_0_conv length_sort_reverse)

lemma get_newest_files_empty_iff:
  "get_newest_files listing MAX_FILES = [] \<longleftrightarrow>
     listing = None \<or> (\<exists>file_list. listing = Some file_list \<and> filter is_xml file_list = [])"
  by (cases listing)
     (simp_all add: get_newest_files_def MAX_FILES_def slice_to_def sort_reverse_Nil_iff)

lemma returned_None_iff:
  "returned (fetch_and_process_data to_float srv) = None \<longleftrightarrow>
     \<not> connect_ok srv \<or> get_newest_files (listdir_attr srv) MAX_FILES = []"
proof -
  have "list_all (\<lambda>x. is_str (sort_key_of x)) (parse_files to_float files)" for files
    unfolding list_all_iff using parse_files_sort_key by blast
  then show ?thesis
    by (simp add: fetch_and_process_data_def sort_by_raw_date_def Let_def)
qed

text \<open>
  Claim C3, as the code has it. \<open>get_newest_files\<close> catches a failure of the listing
  and returns the empty list, the same value it returns for a listing without XML
  files; \<open>fetch_and_process_data\<close> returns \<open>None\<close> exactly when the connection
  fails, the listing fails or no entry of the listing is an XML file. The value
  returned does not tell these cases apart. The claim as stated, that an unreachable
  transport and an empty selection are distinct outcomes, fails on the last theorem of
  this block.
\<close>

theorem transport_failure_same_as_nothing_to_do:
  "get_newest_files None max_files = [] \<and>
   (filter is_xml file_list = [] \<longrightarrow>
      get_newest_files (Some file_list) max_files = get_newest_files None max_files) \<and>
   (returned (fetch_and_process_data to_float srv) = None \<longleftrightarrow>
      \<not> connect_ok srv \<or> listdir_attr srv = None \<or>
      (\<exists>file_list. listdir_attr srv = Some file_list \<and> filter is_xml file_list = []))"
proof -
  have "get_newest_files None max_files = []"
    by (simp add: get_newest_files_def)
  moreover have "filter is_xml file_list = [] \<longrightarrow>
      get_newest_files (Some file_list) max_files = get_newest_files None max_files"
    by (simp add: get_newest_files_def slice_to_def sort_reverse_def)
  moreover have "returned (fetch_and_process_data to_float srv) = None \<longleftrightarrow>
      \<not> connect_ok srv \<or> listdir_attr srv = None \<or>
      (\<exists>file_list. listdir_attr srv = Some file_list \<and> filter is_xml file_list = [])"
    unfolding returned_None_iff get_newest_files_empty_iff ..
  ultimately show ?thesis
    by blast
qed

theorem transport_failure_same_as_nothing_to_do_witness:
  "filter is_xml [\<lparr>filename = ''notes.txt'', st_mtime = 400\<rparr>] = [] \<and>
   get_newest_files (Some [\<lparr>filename = ''notes.txt'', st_mtime = 400\<rparr>]) 10 =
     get_newest_files None 10 \<and>
   returned (fetch_and_process_data example_float empty_server) = None"
proof -
  have f: "filter is_xml [\<lparr>filename = ''notes.txt'', st_mtime = 400\<rparr>] = []"
    by (simp add: is_xml_def endswith_def lower_def lower_char_def char_eq_iff_nat)
  have l: "listdir_attr empty_server = Some [\<lparr>filename = ''notes.txt'', st_mtime = 400\<rparr>]"
    by (simp add: empty_server_def)
  from f l
    transport_failure_same_as_nothing_to_do
      [of 10 "[\<lparr>filename = ''notes.txt'', st_mtime = 400\<rparr>]" example_float empty_server]
  show ?thesis
    by blast
qed

theorem transport_failure_indistinguishable_counterexample:
  "get_newest_files (listdir_attr unlistable_server) MAX_FILES =
     get_newest_files (listdir_attr empty_server) MAX_FILES \<and>
   get_newest_files (listdir_attr unlistable_server) MAX_FILES = [] \<and>
   returned (fetch_and_process_data example_float unreachable_server) =
     returned (fetch_and_process_data example_float empty_server) \<and>
   returned (fetch_and_process_data example_float unlistable_server) =
     returned (fetch_and_process_data example_float empty_server) \<and>
   returned (fetch_and_process_data example_float empty_server) = None"
  by (simp add: unreachable_server_def unlistable_server_def empty_server_def
      fetch_and_process_data_def get_newest_files_def MAX_FILES_def slice_to_def sort_reverse_def
      is_xml_def endswith_def lower_def lower_char_def char_eq_iff_nat)

section \<open>Properties of the publication\<close>

lemma run_actions_prefix: "\<exists>rest. calls acts = run_actions raises acts @ rest"
  by (induction raises acts rule: run_actions.induct) auto

lemma run_actions_raise_last:
  "i < length (run_actions raises acts) \<Longrightarrow> raises (run_actions raises acts ! i) \<Longrightarrow>
     length (run_actions raises acts) = Suc i"
proof (induction raises acts arbitrary: i rule: run_actions.induct)
  case (3 raises t p rest)
  show ?case
  proof (cases "raises (t, p)")
    case True
    with 3 show ?thesis by simp
  next
    case False
    show ?thesis
    proof (cases i)
      case 0
      with 3 False show ?thesis by simp
    next
      case (Suc j)
      with 3 False show ?thesis by simp
    qed
  qed
qed simp_all

lemma run_actions_complete:
  "Fail \<notin> set acts \<Longrightarrow> \<forall>c\<in>set (calls acts). \<not> raises c \<Longrightarrow>
     run_actions raises acts = calls acts"
  by (induction raises acts rule: run_actions.induct) auto

text \<open>
  Claim C4, as the code has it. \<open>publish_to_mqtt\<close> makes its calls of
  \<open>client.publish\<close> in a fixed order: the time of the update, the list of all
  transactions, one message for each record, the total quantity and the counts of
  the articles. The calls made are an initial part of the calls planned. A call that
  raises is the last call made: the exception ends the \<open>try\<close> block and every later
  step is skipped; if the first call raises, it is the only one. When no step raises,
  every planned call is made. The claim as stated, that a failure in one step does not
  keep the later steps from being attempted, fails on the last theorem of this block.
\<close>

theorem publish_to_mqtt_stops_at_first_exception:
  "(\<exists>rest. calls (publish_actions ts dl) = publish_to_mqtt (Some raises) ts dl @ rest) \<and>
   (\<forall>i. i < length (publish_to_mqtt (Some raises) ts dl) \<and>
        raises (publish_to_mqtt (Some raises) ts dl ! i) \<longrightarrow>
        length (publish_to_mqtt (Some raises) ts dl) = Suc i) \<and>
   (raises (Last_update, Timestamp ts) \<longrightarrow>
      publish_to_mqtt (Some raises) ts dl = [(Last_update, Timestamp ts)]) \<and>
   (Fail \<notin> set (publish_actions ts dl) \<and>
    (\<forall>c\<in>set (calls (publish_actions ts dl)). \<not> raises c) \<longrightarrow>
      publish_to_mqtt (Some raises) ts dl = calls (publish_actions ts dl)) \<and>
   publish_to_mqtt None ts dl = []"
proof -
  have eq: "publish_to_mqtt (Some raises) ts dl = run_actions raises (publish_actions ts dl)"
    by (simp add: publish_to_mqtt_def)
  have first: "raises (Last_update, Timestamp ts) \<longrightarrow>
      publish_to_mqtt (Some raises) ts dl = [(Last_update, Timestamp ts)]"
    by (simp add: publish_to_mqtt_def publish_actions_def)
  have none: "publish_to_mqtt None ts dl = []"
    by (simp add: publish_to_mqtt_def)
  show ?thesis
    unfolding eq
    using run_actions_prefix [of "publish_actions ts dl" raises]
      run_actions_raise_last [of _ raises "publish_actions ts dl"]
      run_actions_complete [of "publish_actions ts dl" raises]
      first [unfolded eq] none
    by blast
qed


theorem publish_to_mqtt_stops_at_first_exception_witness:
  "2 < length (publish_to_mqtt (Some wildcard_client) 0 [example_record_plus, example_record_plain]) \<and>
   wildcard_client
     (publish_to_mqtt (Some wildcard_client) 0 [example_record_plus, example_record_plain] ! 2) \<and>
   length (publish_to_mqtt (Some wildcard_client) 0 [example_record_plus, example_record_plain]) =
     Suc 2"
proof -
  have a: "publish_to_mqtt (Some wildcard_client) 0 [example_record_plus, example_record_plain] =
      [(Last_update, Timestamp 0),
       (Transactions, Json_list [example_record_plus, example_record_plain]),
       (Transaction (Str ''47+1''), Json_dict example_record_plus)]"
    by (simp add: publish_to_mqtt_def publish_actions_def transaction_actions_def
        wildcard_client_def example_record_plus_def example_record_plain_def dict_has_def
        dict_get_def)
  have l: "2 < length (publish_to_mqtt (Some wildcard_client) 0
      [example_record_plus, example_record_plain])"
    by (simp add: a)
  have w: "wildcard_client (publish_to_mqtt (Some wildcard_client) 0
      [example_record_plus, example_record_plain] ! 2)"
    by (simp add: a wildcard_client_def)
  from l w publish_to_mqtt_stops_at_first_exception
    [of 0 "[example_record_plus, example_record_plain]" wildcard_client]
  show ?thesis
    by blast
qed

theorem publish_to_mqtt_skips_counterexample:
  "map fst (publish_to_mqtt (Some wildcard_client) 0 [example_record_plus, example_record_plain]) =
     [Last_update, Transactions, Transaction (Str ''47+1'')] \<and>
   map fst (calls (publish_actions 0 [example_record_plus, example_record_plain])) =
     [Last_update, Transactions, Transaction (Str ''47+1''), Transaction (Str ''4710''),
      Total_quantity, Article_counts]"
  by (simp add: publish_to_mqtt_def publish_actions_def transaction_actions_def
      total_quantity_action_def wildcard_client_def example_record_plus_def
      example_record_plain_def dict_has_def dict_get_def)

section \<open>Properties of the refresh\<close>

lemma main_frame:
  "last_update_time (snd (main to_float env s)) = last_update_time s \<and>
   time_writes (snd (main to_float env s)) = time_writes s"
  by (simp add: main_def Let_def split: option.splits)

lemma main_no_data:
  "returned (fetch_and_process_data to_float (sftp env)) = None \<Longrightarrow>
     main to_float env s =
       (Returns, s\<lparr>sftp_log := sftp_log s @ ops (fetch_and_process_data to_float (sftp env))\<rparr>)"
  by (simp add: main_def Let_def)

lemma main_returns: "write_ok env \<Longrightarrow> fst (main to_float env s) = Returns"
  by (simp add: main_def Let_def split: option.splits)

text \<open>
  Claim C2 on the code. The claim states that a refresh whose connection or listing
  fails reports failure and leaves \<open>last_update_time\<close> as it was. The code does
  otherwise: \<open>fetch_and_process_data\<close> returns \<open>None\<close>, \<open>main\<close> logs a warning and
  returns, and \<open>update_data\<close> then sets \<open>last_update_time\<close> to the current time and
  reports success. Only the last part of the claim holds: the report and the published
  messages are left as they were.
\<close>

theorem update_data_after_transport_failure:
  assumes "\<not> connect_ok (sftp env) \<or> listdir_attr (sftp env) = None"
  shows "fst (update_data to_float env s) = (True, ''Data updated successfully'') \<and>
         last_update_time (snd (update_data to_float env s)) = clock env \<and>
         time_writes (snd (update_data to_float env s)) = time_writes s @ [clock env] \<and>
         output_file (snd (update_data to_float env s)) = output_file s \<and>
         published (snd (update_data to_float env s)) = published s"
proof -
  from assms have "returned (fetch_and_process_data to_float (sftp env)) = None"
    unfolding returned_None_iff get_newest_files_empty_iff by blast
  then show ?thesis
    by (simp add: update_data_def main_no_data)
qed

theorem update_data_after_transport_failure_witness:
  "\<not> connect_ok (sftp unreachable_env) \<and>
   last_update_time example_state = 500 \<and>
   fst (update_data example_float unreachable_env example_state) =
     (True, ''Data updated successfully'') \<and>
   last_update_time (snd (update_data example_float unreachable_env example_state)) = 1000"
proof -
  have c: "\<not> connect_ok (sftp unreachable_env)"
    by (simp add: unreachable_env_def unreachable_server_def)
  have t: "clock unreachable_env = 1000"
    by (simp add: unreachable_env_def)
  have l: "last_update_time example_state = 500"
    by (simp add: example_state_def)
  from c have "\<not> connect_ok (sftp unreachable_env) \<or> listdir_attr (sftp unreachable_env) = None"
    by simp
  from update_data_after_transport_failure [OF this, of example_float example_state] c l t
  show ?thesis
    by simp
qed

lemma update_data_cases:
  "(fst (update_data to_float env s) = (True, ''Data updated successfully'') \<and>
    time_writes (snd (update_data to_float env s)) = time_writes s @ [clock env]) \<or>
   (fst (update_data to_float env s) = (False, ''Error updating data'') \<and>
    time_writes (snd (update_data to_float env s)) = time_writes s)"
proof -
  obtain c s' where m: "main to_float env s = (c, s')"
    by (cases "main to_float env s")
  with main_frame [of to_float env s] have "time_writes s' = time_writes s"
    by simp
  with m show ?thesis
    by (cases c) (simp_all add: update_data_def)
qed

lemma api_tankdata_frame:
  "time_writes (snd (api_tankdata to_float env s)) = time_writes s \<and>
   last_update_time (snd (api_tankdata to_float env s)) = last_update_time s \<and>
   output_file (snd (api_tankdata to_float env s)) = output_file s \<and>
   published (snd (api_tankdata to_float env s)) = published s \<and>
   sftp_log (snd (api_tankdata to_float env s)) =
     sftp_log s @ ops (fetch_and_process_data to_float (sftp env))"
  by (simp add: api_tankdata_def Let_def split: option.splits)

lemma filter_update_count:
  "i < length xs \<Longrightarrow> \<not> P (xs ! i) \<Longrightarrow>
     length (filter P (xs[i := y])) = length (filter P xs) + (if P y then 1 else 0)"
proof (induction xs arbitrary: i)
  case Nil
  then show ?case by simp
next
  case (Cons x xs)
  then show ?case by (cases i) auto
qed

lemma length_step: "length (threads (step to_float sv m)) = length (threads sv)"
  by (cases m)
     (auto simp: step_def split: thread.splits request.splits prod.splits)

lemma lock_invariant_step: "lock_invariant sv \<Longrightarrow> lock_invariant (step to_float sv m)"
  by (cases m)
     (auto simp: lock_invariant_def step_def nth_list_update
        split: thread.splits request.splits prod.splits)

lemma list_all_update: "list_all P xs \<Longrightarrow> P y \<Longrightarrow> list_all P (xs[i := y])"
  by (induction xs arbitrary: i) (auto split: nat.splits)

lemma api_tankdata_reply:
  "api_tankdata to_float env s = (resp, s') \<Longrightarrow>
     reload_reply (Done resp) \<and> \<not> reload_succeeded (Done resp)"
  by (auto simp: api_tankdata_def Let_def split: option.splits if_splits)

lemma replies_step:
  assumes "list_all reload_reply (threads sv)"
  shows "list_all reload_reply (threads (step to_float sv m))"
proof -
  obtain i env where m: "m = (i, env)"
    by (cases m)
  show ?thesis
  proof (cases "i < length (threads sv)")
    case False
    with m assms show ?thesis by (simp add: step_def)
  next
    case True
    show ?thesis
    proof (cases "threads sv ! i")
      case (Waiting req)
      with m True assms show ?thesis
        by (cases req)
           (auto simp: step_def list_all_update api_tankdata_reply split: prod.splits)
    next
      case Running
      from update_data_cases [of to_float env "app sv"]
      have "reload_reply (Done (Reload_response (fst (fst (update_data to_float env (app sv))))
          (snd (fst (update_data to_float env (app sv))))))"
        by auto
      with m True Running assms show ?thesis
        by (auto simp: step_def list_all_update split: prod.splits)
    next
      case (Done resp)
      with m True assms show ?thesis by (simp add: step_def)
    qed
  qed
qed

lemma count_step:
  assumes "length (time_writes (app sv)) = n + length (filter reload_succeeded (threads sv))"
  shows "length (time_writes (app (step to_float sv m))) =
     n + length (filter reload_succeeded (threads (step to_float sv m)))"
proof -
  obtain i env where m: "m = (i, env)"
    by (cases m)
  show ?thesis
  proof (cases "i < length (threads sv)")
    case False
    with m assms show ?thesis by (simp add: step_def)
  next
    case True
    show ?thesis
    proof (cases "threads sv ! i")
      case (Waiting req)
      show ?thesis
      proof (cases req)
        case Reload
        with m True Waiting assms show ?thesis
          by (simp add: step_def filter_update_count)
      next
        case Tankdata
        obtain resp s' where a: "api_tankdata to_float env (app sv) = (resp, s')"
          by (cases "api_tankdata to_float env (app sv)")
        with api_tankdata_frame [of to_float env "app sv"]
        have "time_writes s' = time_writes (app sv)"
          by simp
        moreover have "\<not> reload_succeeded (Done resp)"
          using api_tankdata_reply [OF a] by simp
        ultimately show ?thesis
          using m True Waiting Tankdata assms a
          by (simp add: step_def filter_update_count)
      qed
    next
      case Running
      obtain success message s' where u: "update_data to_float env (app sv) = ((success, message), s')"
        by (cases "update_data to_float env (app sv)") auto
      with update_data_cases [of to_float env "app sv"]
      have "length (time_writes s') = length (time_writes (app sv)) + (if success then 1 else 0)"
        by auto
      with m True Running assms u show ?thesis
        by (simp add: step_def filter_update_count)
    next
      case (Done resp)
      with m True assms show ?thesis by (simp add: step_def)
    qed
  qed
qed

lemma refresh_invariant_step:
  "refresh_invariant n sv \<Longrightarrow> refresh_invariant n (step to_float sv m)"
  by (simp add: refresh_invariant_def lock_invariant_step replies_step count_step)

lemma refresh_invariant_run:
  "refresh_invariant n sv \<Longrightarrow> refresh_invariant n (run to_float sv schedule)"
  unfolding run_def
  by (induction schedule arbitrary: sv) (simp_all add: refresh_invariant_step)

lemma refresh_invariant_start:
  "refresh_invariant (length (time_writes s)) (start s requests)"
proof -
  have "filter reload_succeeded (map Waiting requests) = []"
    by (induction requests) simp_all
  moreover have "list_all reload_reply (map Waiting requests)"
    by (induction requests) simp_all
  ultimately show ?thesis
    by (simp add: refresh_invariant_def lock_invariant_def start_def)
qed

lemma update_data_write_ok:
  assumes "write_ok env"
  shows "update_data to_float env s =
     ((True, ''Data updated successfully''),
      (snd (main to_float env s))\<lparr>last_update_time := clock env,
                                   time_writes := time_writes s @ [clock env]\<rparr>)"
proof -
  obtain c s' where m: "main to_float env s = (c, s')"
    by (cases "main to_float env s")
  with main_returns [OF assms, of to_float s] have c: "c = Returns"
    by simp
  from m main_frame [of to_float env s] have "time_writes s' = time_writes s"
    by simp
  with m c show ?thesis
    by (simp add: update_data_def)
qed

lemma ops_connected:
  "connect_ok srv \<Longrightarrow>
     ops (fetch_and_process_data to_float srv) =
       [Connect, Listdir] @
       map (\<lambda>f. Get (filename f)) (get_newest_files (listdir_attr srv) MAX_FILES) @ [Close]"
  by (simp add: fetch_and_process_data_def Let_def)

lemma main_sftp_log:
  "sftp_log (snd (main to_float env s)) =
     sftp_log s @ ops (fetch_and_process_data to_float (sftp env))"
  by (simp add: main_def Let_def split: option.splits)

lemma example_server_ops:
  "ops (fetch_and_process_data to_float example_server) =
     [Connect, Listdir, Get ''c.xml'', Get ''b.xml'', Get ''a.xml'', Close]"
proof -
  have "connect_ok example_server"
    by (simp add: example_server_def)
  then show ?thesis
    by (simp add: ops_connected example_selected)
qed

text \<open>
  Claim C9, as the code has it, for any requests served in any order. At most one
  thread is inside the refresh at a time, and it is the thread that holds
  \<open>data_lock\<close>. A reload that finds the lock held waits; when the lock is free it
  takes it, and its next step runs a refresh of its own, with the environment of that
  moment, and replies with the result of that refresh. No reload is rejected: every
  reply is one of the two messages of \<open>update_data\<close>. \<open>last_update_time\<close> is written
  once by each reload that has returned success, so two reloads that succeed write it
  twice. The claim as stated, that the pair updates the state once and the second
  reload returns the result of the first, fails on the last theorem of this block.
\<close>

theorem concurrent_refreshes:
  "(\<forall>i j. i < length (threads (run to_float (start s requests) schedule)) \<and>
           j < length (threads (run to_float (start s requests) schedule)) \<and>
           threads (run to_float (start s requests) schedule) ! i = Running \<and>
           threads (run to_float (start s requests) schedule) ! j = Running \<longrightarrow> i = j) \<and>
   (\<forall>i. i < length (threads (run to_float (start s requests) schedule)) \<and>
        threads (run to_float (start s requests) schedule) ! i = Running \<longrightarrow>
        data_lock (run to_float (start s requests) schedule) = Some i) \<and>
   length (time_writes (app (run to_float (start s requests) schedule))) =
     length (time_writes s) +
     length (filter reload_succeeded (threads (run to_float (start s requests) schedule))) \<and>
   list_all reload_reply (threads (run to_float (start s requests) schedule)) \<and>
   (\<forall>sv i env. i < length (threads sv) \<and> threads sv ! i = Waiting Reload \<and>
        data_lock sv \<noteq> None \<longrightarrow> step to_float sv (i, env) = sv) \<and>
   (\<forall>sv i env. i < length (threads sv) \<and> threads sv ! i = Waiting Reload \<and>
        data_lock sv = None \<longrightarrow>
        step to_float sv (i, env) =
          sv\<lparr>data_lock := Some i, threads := (threads sv)[i := Running]\<rparr>) \<and>
   (\<forall>sv i env. i < length (threads sv) \<and> threads sv ! i = Running \<longrightarrow>
        step to_float sv (i, env) =
          sv\<lparr>app := snd (update_data to_float env (app sv)), data_lock := None,
             threads := (threads sv)[i := Done (Reload_response
               (fst (fst (update_data to_float env (app sv))))
               (snd (fst (update_data to_float env (app sv)))))]\<rparr>)"
proof -
  define sv where "sv = run to_float (start s requests) schedule"
  have inv: "refresh_invariant (length (time_writes s)) sv"
    unfolding sv_def by (intro refresh_invariant_run refresh_invariant_start)
  then have lk: "lock_invariant sv"
    by (simp add: refresh_invariant_def)
  have a: "\<forall>i j. i < length (threads sv) \<and> j < length (threads sv) \<and>
           threads sv ! i = Running \<and> threads sv ! j = Running \<longrightarrow> i = j"
    using lk unfolding lock_invariant_def by (metis option.inject)
  have b: "\<forall>i. i < length (threads sv) \<and> threads sv ! i = Running \<longrightarrow> data_lock sv = Some i"
    using lk unfolding lock_invariant_def by blast
  have c: "length (time_writes (app sv)) =
     length (time_writes s) + length (filter reload_succeeded (threads sv))"
    using inv by (simp add: refresh_invariant_def)
  have d: "list_all reload_reply (threads sv)"
    using inv by (simp add: refresh_invariant_def)
  have e: "\<forall>sv i env. i < length (threads sv) \<and> threads sv ! i = Waiting Reload \<and>
        data_lock sv \<noteq> None \<longrightarrow> step to_float sv (i, env) = sv"
    by (auto simp: step_def)
  have f: "\<forall>sv i env. i < length (threads sv) \<and> threads sv ! i = Waiting Reload \<and>
        data_lock sv = None \<longrightarrow>
        step to_float sv (i, env) =
          sv\<lparr>data_lock := Some i, threads := (threads sv)[i := Running]\<rparr>"
    by (simp add: step_def)
  have g: "\<forall>sv i env. i < length (threads sv) \<and> threads sv ! i = Running \<longrightarrow>
        step to_float sv (i, env) =
          sv\<lparr>app := snd (update_data to_float env (app sv)), data_lock := None,
             threads := (threads sv)[i := Done (Reload_response
               (fst (fst (update_data to_float env (app sv))))
               (snd (fst (update_data to_float env (app sv)))))]\<rparr>"
    by (simp add: step_def split: prod.splits)
  from a b c d e f g show ?thesis
    unfolding sv_def by blast
qed

theorem concurrent_refreshes_witness:
  "data_lock (step example_float (start example_state [Reload, Reload]) (0, example_env_1)) \<noteq> None \<and>
   threads (step example_float (start example_state [Reload, Reload]) (0, example_env_1)) ! 1 =
     Waiting Reload \<and>
   step example_float
     (step example_float (start example_state [Reload, Reload]) (0, example_env_1))
     (1, example_env_1) =
     step example_float (start example_state [Reload, Reload]) (0, example_env_1) \<and>
   length (time_writes (app (run example_float (start example_state [Reload, Reload])
      [(0, example_env_1), (1, example_env_1), (0, example_env_1),
       (1, example_env_2), (1, example_env_2)]))) =
     length (time_writes example_state) +
     length (filter reload_succeeded (threads (run example_float
       (start example_state [Reload, Reload])
       [(0, example_env_1), (1, example_env_1), (0, example_env_1),
        (1, example_env_2), (1, example_env_2)])))"
proof -
  define sv where "sv = step example_float (start example_state [Reload, Reload]) (0, example_env_1)"
  note all = concurrent_refreshes [of example_float example_state "[Reload, Reload]"
      "[(0, example_env_1), (1, example_env_1), (0, example_env_1),
        (1, example_env_2), (1, example_env_2)]"]
  have p: "1 < length (threads sv)" "threads sv ! 1 = Waiting Reload" "data_lock sv \<noteq> None"
    by (simp_all add: sv_def step_def start_def)
  from all have "\<forall>sv i env. i < length (threads sv) \<and> threads sv ! i = Waiting Reload \<and>
        data_lock sv \<noteq> None \<longrightarrow> step example_float sv (i, env) = sv"
    by (elim conjE)
  with p have blocked: "step example_float sv (1, example_env_1) = sv"
    by blast
  from all have count: "length (time_writes (app (run example_float (start example_state [Reload, Reload])
      [(0, example_env_1), (1, example_env_1), (0, example_env_1),
       (1, example_env_2), (1, example_env_2)]))) =
     length (time_writes example_state) +
     length (filter reload_succeeded (threads (run example_float
       (start example_state [Reload, Reload])
       [(0, example_env_1), (1, example_env_1), (0, example_env_1),
        (1, example_env_2), (1, example_env_2)])))"
    by (elim conjE)
  from p blocked count show ?thesis
    unfolding sv_def by blast
qed

theorem concurrent_refreshes_update_twice_counterexample:
  "threads (run example_float (start example_state [Reload, Reload])
      [(0, example_env_1), (1, example_env_1), (0, example_env_1),
       (1, example_env_2), (1, example_env_2)]) =
     [Done (Reload_response True ''Data updated successfully''),
      Done (Reload_response True ''Data updated successfully'')] \<and>
   time_writes example_state = [500] \<and>
   time_writes (app (run example_float (start example_state [Reload, Reload])
      [(0, example_env_1), (1, example_env_1), (0, example_env_1),
       (1, example_env_2), (1, example_env_2)])) = [500, 1000, 2000] \<and>
   sftp_log (app (run example_float (start example_state [Reload, Reload])
      [(0, example_env_1), (1, example_env_1), (0, example_env_1),
       (1, example_env_2), (1, example_env_2)])) =
     [Connect, Listdir, Get ''c.xml'', Get ''b.xml'', Get ''a.xml'', Close,
      Connect, Listdir, Get ''c.xml'', Get ''b.xml'', Get ''a.xml'', Close]"
proof -
  have w: "write_ok example_env_1" "write_ok example_env_2"
    by (simp_all add: example_env_1_def example_env_2_def)
  have t: "clock example_env_1 = 1000" "clock example_env_2 = 2000"
    by (simp_all add: example_env_1_def example_env_2_def)
  have e: "sftp example_env_1 = example_server" "sftp example_env_2 = example_server"
    by (simp_all add: example_env_1_def example_env_2_def)
  have s: "time_writes example_state = [500]" "sftp_log example_state = []"
    by (simp_all add: example_state_def)
  show ?thesis
    by (simp add: run_def start_def step_def update_data_write_ok [OF w(1)]
        update_data_write_ok [OF w(2)] t s e main_sftp_log example_server_ops)
qed

text \<open>
  The records of a fetch, file by file.
\<close>

lemma parse_files_download_files:
  "parse_files to_float (download_files srv files) =
     concat (map (\<lambda>file_attr.
        case sftp_get srv (filename file_attr) of
          None \<Rightarrow> []
        | Some doc \<Rightarrow> (case parse_xml_file to_float doc of None \<Rightarrow> [] | Some data \<Rightarrow> [data]))
      files)"
proof (induction files)
  case Nil
  show ?case
    by (simp add: parse_files_def download_files_def map_filter_def)
next
  case (Cons file_attr files)
  have step: "parse_files to_float (download_files srv (file_attr # files)) =
      (case sftp_get srv (filename file_attr) of
         None \<Rightarrow> []
       | Some doc \<Rightarrow> (case parse_xml_file to_float doc of None \<Rightarrow> [] | Some data \<Rightarrow> [data])) @
      parse_files to_float (download_files srv files)"
    using parse_xml_file_sort_key [of to_float]
    by (auto simp: parse_files_def download_files_def map_filter_def split: option.splits)
  show ?case
    unfolding step Cons.IH by simp
qed

lemma returned_records:
  "returned (fetch_and_process_data to_float srv) =
     (if connect_ok srv \<and> get_newest_files (listdir_attr srv) MAX_FILES \<noteq> []
      then Some (sort_reverse sort_key_string
             (parse_files to_float
                (download_files srv (get_newest_files (listdir_attr srv) MAX_FILES))))
      else None)"
proof -
  have "list_all (\<lambda>x. is_str (sort_key_of x)) (parse_files to_float files)" for files
    unfolding list_all_iff using parse_files_sort_key by blast
  then show ?thesis
    by (simp add: fetch_and_process_data_def sort_by_raw_date_def Let_def)
qed

text \<open>
  Claim C10. A thread that serves \<open>/api/tankdata\<close> moves whether or not another
  thread holds \<open>data_lock\<close>, and leaves the lock as it is. Its reply is computed from
  the server as it is at that moment and from nothing else: the call connects, lists
  the directory, selects the newest XML files, downloads each of them, parses every
  file whose download did not fail and sorts the records by \<open>RawDate\<close> descending,
  keeping the extraction order of equal keys; it then closes the session. The reply is
  \<open>No data available\<close> when the connection fails or no record is extracted, and the
  sorted records with their number otherwise. Nothing stored by an earlier refresh is
  read, and neither the report nor \<open>last_update_time\<close> is changed.
\<close>

theorem api_tankdata_fresh_and_lock_free:
  assumes "i < length (threads sv)" and "threads sv ! i = Waiting Tankdata"
  shows "\<exists>records out.
           records =
             concat (map (\<lambda>file_attr.
                case sftp_get (sftp env) (filename file_attr) of
                  None \<Rightarrow> []
                | Some doc \<Rightarrow>
                    (case parse_xml_file to_float doc of None \<Rightarrow> [] | Some data \<Rightarrow> [data]))
              (get_newest_files (listdir_attr (sftp env)) MAX_FILES)) \<and>
           out = sort_reverse sort_key_string records \<and>
           sorted_wrt (\<lambda>a b. sort_key_string b \<le> sort_key_string a) out \<and>
           (\<forall>k. filter (\<lambda>x. sort_key_string x = k) out =
                filter (\<lambda>x. sort_key_string x = k) records) \<and>
           mset out = mset records \<and>
           threads (step to_float sv (i, env)) =
             (threads sv)[i := Done
                (if connect_ok (sftp env) \<and> records \<noteq> []
                 then Tankdata_success out (length records)
                 else Tankdata_failure ''No data available'')] \<and>
           sftp_log (app (step to_float sv (i, env))) =
             sftp_log (app sv) @
             (if connect_ok (sftp env)
              then [Connect, Listdir] @
                   map (\<lambda>f. Get (filename f))
                     (get_newest_files (listdir_attr (sftp env)) MAX_FILES) @ [Close]
              else [Connect]) \<and>
           data_lock (step to_float sv (i, env)) = data_lock sv \<and>
           last_update_time (app (step to_float sv (i, env))) = last_update_time (app sv) \<and>
           time_writes (app (step to_float sv (i, env))) = time_writes (app sv) \<and>
           output_file (app (step to_float sv (i, env))) = output_file (app sv) \<and>
           published (app (step to_float sv (i, env))) = published (app sv)"
proof -
  define newest where "newest = get_newest_files (listdir_attr (sftp env)) MAX_FILES"
  define records where "records =
     concat (map (\<lambda>file_attr.
        case sftp_get (sftp env) (filename file_attr) of
          None \<Rightarrow> []
        | Some doc \<Rightarrow> (case parse_xml_file to_float doc of None \<Rightarrow> [] | Some data \<Rightarrow> [data]))
      newest)"
  define out where "out = sort_reverse sort_key_string records"
  have ret: "returned (fetch_and_process_data to_float (sftp env)) =
      (if connect_ok (sftp env) \<and> newest \<noteq> [] then Some out else None)"
    unfolding out_def records_def newest_def
    by (simp add: returned_records parse_files_download_files)
  have empty: "newest = [] \<Longrightarrow> records = []"
    by (simp add: records_def)
  have out_empty: "(out = []) = (records = [])"
    by (simp add: out_def sort_reverse_Nil_iff)
  have len: "length out = length records"
    by (simp add: out_def length_sort_reverse)
  obtain resp s' where a: "api_tankdata to_float env (app sv) = (resp, s')"
    by (cases "api_tankdata to_float env (app sv)")
  from a have r: "resp =
      (if connect_ok (sftp env) \<and> records \<noteq> []
       then Tankdata_success out (length records)
       else Tankdata_failure ''No data available'')"
    using empty out_empty len
    by (auto simp: api_tankdata_def Let_def ret split: if_splits)
  have log: "ops (fetch_and_process_data to_float (sftp env)) =
      (if connect_ok (sftp env)
       then [Connect, Listdir] @ map (\<lambda>f. Get (filename f)) newest @ [Close]
       else [Connect])"
    by (simp add: fetch_and_process_data_def Let_def newest_def)
  from a api_tankdata_frame [of to_float env "app sv"] have fr:
    "time_writes s' = time_writes (app sv)" "last_update_time s' = last_update_time (app sv)"
    "output_file s' = output_file (app sv)" "published s' = published (app sv)"
    "sftp_log s' = sftp_log (app sv) @ ops (fetch_and_process_data to_float (sftp env))"
    by simp_all
  have st: "step to_float sv (i, env) = sv\<lparr>app := s', threads := (threads sv)[i := Done resp]\<rparr>"
    using assms a by (simp add: step_def)
  have srt: "sorted_wrt (\<lambda>a b. sort_key_string b \<le> sort_key_string a) out"
    unfolding out_def by (rule sorted_sort_reverse)
  have stb: "\<forall>k. filter (\<lambda>x. sort_key_string x = k) out =
                filter (\<lambda>x. sort_key_string x = k) records"
    unfolding out_def by (simp add: stable_sort_reverse)
  have ms: "mset out = mset records"
    unfolding out_def by (rule mset_sort_reverse)
  have rest: "threads (step to_float sv (i, env)) =
             (threads sv)[i := Done
                (if connect_ok (sftp env) \<and> records \<noteq> []
                 then Tankdata_success out (length records)
                 else Tankdata_failure ''No data available'')] \<and>
           sftp_log (app (step to_float sv (i, env))) =
             sftp_log (app sv) @
             (if connect_ok (sftp env)
              then [Connect, Listdir] @ map (\<lambda>f. Get (filename f)) newest @ [Close]
              else [Connect]) \<and>
           data_lock (step to_float sv (i, env)) = data_lock sv \<and>
           last_update_time (app (step to_float sv (i, env))) = last_update_time (app sv) \<and>
           time_writes (app (step to_float sv (i, env))) = time_writes (app sv) \<and>
           output_file (app (step to_float sv (i, env))) = output_file (app sv) \<and>
           published (app (step to_float sv (i, env))) = published (app sv)"
    unfolding st using r fr log by simp
  from out_def srt stb ms rest show ?thesis
    unfolding records_def newest_def by blast
qed

theorem api_tankdata_fresh_and_lock_free_witness:
  "1 < length (threads example_held) \<and> threads example_held ! 1 = Waiting Tankdata \<and>
   data_lock example_held = Some 0 \<and>
   data_lock (step example_float example_held (1, example_env_2)) = Some 0 \<and>
   sftp_log (app (step example_float example_held (1, example_env_2))) =
     [Connect, Listdir, Get ''c.xml'', Get ''b.xml'', Get ''a.xml'', Close] \<and>
   threads (step example_float example_held (1, example_env_2)) =
     [Running,
      Done (Tankdata_success
       [[(''TransactionNumber'', Str ''4712''), (''TransactionStartDate'', Str ''05.03.2024 10:11:12''),
         (''RawDate'', Str ''2024-03-05T10:11:12''), (''DispenserNumber'', Str ''N/A''),
         (''ArticleNumber'', Str ''7''), (''RawArticleNumber'', Str ''7''),
         (''TransactionQuantity'', Str ''abc''), (''RawQuantity'', Float 0),
         (''Kennzeichen'', Str ''N/A'')],
        [(''TransactionNumber'', Str ''4711''), (''TransactionStartDate'', Str ''05.03.2024 10:11:12''),
         (''RawDate'', Str ''2024-03-05T10:11:12''), (''DispenserNumber'', Str ''2''),
         (''ArticleNumber'', Str ''AVGAS''), (''RawArticleNumber'', Str ''1''),
         (''TransactionQuantity'', Str ''12.5''), (''RawQuantity'', Float 12.5),
         (''Kennzeichen'', Str ''D-EABC'')],
        [(''TransactionNumber'', Str ''4710''), (''TransactionStartDate'', Str ''04.03.2024 23:59:59''),
         (''RawDate'', Str ''2024-03-04T23:59:59''), (''DispenserNumber'', Str ''N/A''),
         (''ArticleNumber'', Str ''MOGAS''), (''RawArticleNumber'', Str ''2''),
         (''TransactionQuantity'', Str ''40''), (''RawQuantity'', Float 40),
         (''Kennzeichen'', Str ''N/A'')]] 3)]"
proof -
  define rc where "rc =
       [(''TransactionNumber'', Str ''4710''), (''TransactionStartDate'', Str ''04.03.2024 23:59:59''),
         (''RawDate'', Str ''2024-03-04T23:59:59''), (''DispenserNumber'', Str ''N/A''),
         (''ArticleNumber'', Str ''MOGAS''), (''RawArticleNumber'', Str ''2''),
         (''TransactionQuantity'', Str ''40''), (''RawQuantity'', Float 40),
         (''Kennzeichen'', Str ''N/A'')]"
  define rb where "rb =
       [(''TransactionNumber'', Str ''4712''), (''TransactionStartDate'', Str ''05.03.2024 10:11:12''),
         (''RawDate'', Str ''2024-03-05T10:11:12''), (''DispenserNumber'', Str ''N/A''),
         (''ArticleNumber'', Str ''7''), (''RawArticleNumber'', Str ''7''),
         (''TransactionQuantity'', Str ''abc''), (''RawQuantity'', Float 0),
         (''Kennzeichen'', Str ''N/A'')]"
  define ra where "ra =
        [(''TransactionNumber'', Str ''4711''), (''TransactionStartDate'', Str ''05.03.2024 10:11:12''),
         (''RawDate'', Str ''2024-03-05T10:11:12''), (''DispenserNumber'', Str ''2''),
         (''ArticleNumber'', Str ''AVGAS''), (''RawArticleNumber'', Str ''1''),
         (''TransactionQuantity'', Str ''12.5''), (''RawQuantity'', Float 12.5),
         (''Kennzeichen'', Str ''D-EABC'')]"
  have p: "1 < length (threads example_held)" "threads example_held ! 1 = Waiting Tankdata"
    by (simp_all add: example_held_def)
  have l: "data_lock example_held = Some 0" "sftp_log (app example_held) = []"
    "threads example_held = [Running, Waiting Tankdata]"
    by (simp_all add: example_held_def example_state_def)
  have e: "sftp example_env_2 = example_server"
    by (simp add: example_env_2_def)
  have c: "connect_ok example_server"
    by (simp add: example_server_def)
  have recs: "concat (map (\<lambda>file_attr.
                case sftp_get example_server (filename file_attr) of
                  None \<Rightarrow> []
                | Some doc \<Rightarrow>
                    (case parse_xml_file example_float doc of None \<Rightarrow> [] | Some data \<Rightarrow> [data]))
              (get_newest_files (listdir_attr example_server) MAX_FILES)) = [rc, rb, ra]"
    unfolding example_selected rc_def rb_def ra_def
    by (simp add: example_server_def example_doc_a_def example_doc_b_def example_doc_c_def
        parse_eval)
  have keys: "sort_key_string rc = ''2024-03-04T23:59:59''"
    "sort_key_string rb = ''2024-03-05T10:11:12''" "sort_key_string ra = ''2024-03-05T10:11:12''"
    by (simp_all add: rc_def rb_def ra_def sort_key_string_def sort_key_of_def dict_get_def)
  have srt: "sort_reverse sort_key_string [rc, rb, ra] = [rb, ra, rc]"
    by (simp add: sort_reverse_def keys)
  from api_tankdata_fresh_and_lock_free [OF p, of example_float example_env_2]
  obtain out where
    o: "out = [rb, ra, rc]" and
    th: "threads (step example_float example_held (1, example_env_2)) =
           [Running, Done (Tankdata_success out 3)]" and
    lg: "sftp_log (app (step example_float example_held (1, example_env_2))) =
           [Connect, Listdir, Get ''c.xml'', Get ''b.xml'', Get ''a.xml'', Close]" and
    lk: "data_lock (step example_float example_held (1, example_env_2)) = Some 0"
    unfolding e recs by (auto simp: c l example_selected srt)
  from p l th lg lk show ?thesis
    unfolding o rc_def rb_def ra_def by simp
qed

end
